theory Spec2Isabelle
  imports Complex_Main "HOL-Library.Word"
begin

unbundle bit_operations_syntax

section \<open>Single-precision values\<close>

text \<open>
  The firmware computes in C \<^verbatim>\<open>float\<close>.  A value is either NaN, the firmware's
  ``unknown'' sentinel, or a number.  Numbers are taken as exact reals: rounding,
  overflow and the two infinities are outside this model.  Every comparison with a
  NaN operand is false and every arithmetic operation with a NaN operand is NaN,
  as in IEEE-754.
\<close>

datatype flt = NaN | Fin real

type_synonym u8 = "8 word"
type_synonym u16 = "16 word"
type_synonym u32 = "32 word"

fun isnan :: "flt \<Rightarrow> bool" where
  "isnan NaN = True"
| "isnan (Fin _) = False"

fun f_lt :: "flt \<Rightarrow> flt \<Rightarrow> bool" where
  "f_lt (Fin a) (Fin b) = (a < b)"
| "f_lt _ _ = False"

fun f_le :: "flt \<Rightarrow> flt \<Rightarrow> bool" where
  "f_le (Fin a) (Fin b) = (a \<le> b)"
| "f_le _ _ = False"

definition f_gt :: "flt \<Rightarrow> flt \<Rightarrow> bool" where
  "f_gt a b = f_lt b a"

definition f_ge :: "flt \<Rightarrow> flt \<Rightarrow> bool" where
  "f_ge a b = f_le b a"

fun f_add :: "flt \<Rightarrow> flt \<Rightarrow> flt" where
  "f_add (Fin a) (Fin b) = Fin (a + b)"
| "f_add _ _ = NaN"

fun f_sub :: "flt \<Rightarrow> flt \<Rightarrow> flt" where
  "f_sub (Fin a) (Fin b) = Fin (a - b)"
| "f_sub _ _ = NaN"

fun f_mul :: "flt \<Rightarrow> flt \<Rightarrow> flt" where
  "f_mul (Fin a) (Fin b) = Fin (a * b)"
| "f_mul _ _ = NaN"

text \<open>
  Division by zero gives an infinity or NaN in IEEE-754; with no infinities here it
  is NaN.  Every divisor in the code below is a nonzero constant or a clamped value.
\<close>

fun f_div :: "flt \<Rightarrow> flt \<Rightarrow> flt" where
  "f_div (Fin a) (Fin b) = (if b = 0 then NaN else Fin (a / b))"
| "f_div _ _ = NaN"

fun fabsf :: "flt \<Rightarrow> flt" where
  "fabsf (Fin a) = Fin \<bar>a\<bar>"
| "fabsf NaN = NaN"

text \<open>\<^verbatim>\<open>sqrtf\<close> of a negative number is NaN.\<close>

fun sqrtf :: "flt \<Rightarrow> flt" where
  "sqrtf (Fin a) = (if a < 0 then NaN else Fin (sqrt a))"
| "sqrtf NaN = NaN"

text \<open>\<^verbatim>\<open>fmaxf\<close> and \<^verbatim>\<open>fminf\<close> return the other operand when one is NaN.\<close>

fun fmaxf :: "flt \<Rightarrow> flt \<Rightarrow> flt" where
  "fmaxf (Fin a) (Fin b) = Fin (max a b)"
| "fmaxf NaN b = b"
| "fmaxf a NaN = a"

fun fminf :: "flt \<Rightarrow> flt \<Rightarrow> flt" where
  "fminf (Fin a) (Fin b) = Fin (min a b)"
| "fminf NaN b = b"
| "fminf a NaN = a"

text \<open>Conversion of an unsigned 32-bit integer to \<^verbatim>\<open>float\<close>.\<close>

definition u32_to_f :: "u32 \<Rightarrow> flt" where
  "u32_to_f w = Fin (real (unat w))"

section \<open>Flight controller core (services/fc\_core.cpp)\<close>

subsection \<open>Configuration (config/fc\_config.h)\<close>

definition FC_SOS_FIXED_MPS :: flt where "FC_SOS_FIXED_MPS = Fin 300"
definition FC_MACH_MAX_FOR_DEPLOY :: flt where "FC_MACH_MAX_FOR_DEPLOY = Fin 0.50"
definition FC_MACH_HYST :: flt where "FC_MACH_HYST = Fin 0.02"
definition FC_MACH_DWELL_MS :: u32 where "FC_MACH_DWELL_MS = 300"
definition FC_TILT_ABORT_DEG :: flt where "FC_TILT_ABORT_DEG = Fin 30"
definition FC_TILT_ABORT_DWELL_MS :: u32 where "FC_TILT_ABORT_DWELL_MS = 200"
definition FC_VZ_LIFTOFF_MPS :: flt where "FC_VZ_LIFTOFF_MPS = Fin 8"
definition FC_AZ_LIFTOFF_MPS2 :: flt where "FC_AZ_LIFTOFF_MPS2 = Fin 15"
definition FC_LIFTOFF_MIN_AGL_M :: flt where "FC_LIFTOFF_MIN_AGL_M = Fin 5"
definition FC_LIFTOFF_DWELL_MS :: u32 where "FC_LIFTOFF_DWELL_MS = 150"
definition FC_BURNOUT_AZ_DONE_MPS2 :: flt where "FC_BURNOUT_AZ_DONE_MPS2 = Fin 1"
definition FC_BURNOUT_DWELL_MS :: u32 where "FC_BURNOUT_DWELL_MS = 200"
definition FC_BURNOUT_HOLD_MS :: u32 where "FC_BURNOUT_HOLD_MS = 1500"
definition FC_MIN_DEPLOY_AGL_M :: flt where "FC_MIN_DEPLOY_AGL_M = Fin 200"
definition FC_TARGET_APOGEE_AGL_M :: flt where "FC_TARGET_APOGEE_AGL_M = Fin 3048"
definition FC_APOGEE_HIGH_MARGIN_M :: flt where "FC_APOGEE_HIGH_MARGIN_M = Fin 45"
definition FC_RETRACT_BEFORE_APOGEE_S :: flt where "FC_RETRACT_BEFORE_APOGEE_S = Fin 5"
definition FC_EXPECTED_TTA_S :: flt where "FC_EXPECTED_TTA_S = Fin 18"
definition FC_EXPECTED_TTA_SCALE_TIMEOUT :: flt where "FC_EXPECTED_TTA_SCALE_TIMEOUT = Fin 1.2"
definition FC_SENSOR_INVALID_MS :: u32 where "FC_SENSOR_INVALID_MS = 150"
definition FC_SENSOR_RECOVERY_MS :: u32 where "FC_SENSOR_RECOVERY_MS = 1500"
definition FC_BARO_AGREE_M :: flt where "FC_BARO_AGREE_M = Fin 15"
definition FC_BARO_AGREE_MS :: u32 where "FC_BARO_AGREE_MS = 500"
definition FC_DEPLOY_CMD_DEG :: flt where "FC_DEPLOY_CMD_DEG = Fin 30"

text \<open>
  \<^verbatim>\<open>cosf(FC_TILT_ABORT_DEG * 0.01745329252f)\<close>, the cosine of 30 degrees, is
  0.8660254 in single precision.
\<close>

definition cosf_tilt_abort :: flt where "cosf_tilt_abort = Fin 0.8660254"

subsection \<open>Data (services/fc.h, services/fc\_core.h)\<close>

text \<open>\<^verbatim>\<open>enum FcState : uint8_t\<close>, numbered 0 to 9 in this order.\<close>

datatype FcState =
  FC_SAFE | FC_PREFLIGHT | FC_ARMED_WAIT | FC_BOOST | FC_POST_BURN_HOLD
  | FC_WINDOW | FC_DEPLOYED | FC_RETRACTING | FC_LOCKED | FC_ABORT_LOCKOUT

definition FCF_SENS_IMU1_OK :: u32 where "FCF_SENS_IMU1_OK = push_bit 0 1"
definition FCF_SENS_BMP1_OK :: u32 where "FCF_SENS_BMP1_OK = push_bit 1 1"
definition FCF_SENS_IMU2_OK :: u32 where "FCF_SENS_IMU2_OK = push_bit 2 1"
definition FCF_BARO_AGREE :: u32 where "FCF_BARO_AGREE = push_bit 3 1"
definition FCF_MACH_OK :: u32 where "FCF_MACH_OK = push_bit 4 1"
definition FCF_TILT_OK :: u32 where "FCF_TILT_OK = push_bit 5 1"
definition FCF_TILT_LATCH :: u32 where "FCF_TILT_LATCH = push_bit 6 1"
definition FCF_LIFTOFF_DET :: u32 where "FCF_LIFTOFF_DET = push_bit 7 1"
definition FCF_BURNOUT_DET :: u32 where "FCF_BURNOUT_DET = push_bit 8 1"

text \<open>
  The \<^verbatim>\<open>uint8_t\<close> fields that only ever hold 0 or 1 (validity and latch flags)
  are booleans here.
\<close>

record FcInputs =
  dt_ms :: u32
  now_ms :: u32
  tilt_deg :: flt
  agl_fused_m :: flt
  vz_fused_mps :: flt
  vz_mps :: flt
  az_imu1_mps2 :: flt
  t_apogee_s :: flt
  apogee_agl_m :: flt
  agl_ready :: bool
  bmp1_altitude_m :: flt
  imu1_altitude_m :: flt
  imu1_valid :: bool
  bmp1_valid :: bool
  imu2_valid :: bool

record FcOutputs =
  out_state :: FcState
  out_flags :: u32
  airbrake_cmd_deg :: flt
  t_since_launch_s :: flt
  t_to_apogee_s :: flt
  mach_cons :: flt
  out_tilt_deg :: flt

record FcCoreCtx =
  state :: FcState
  flags :: u32
  t_state_ms :: u32
  t_launch_ms :: u32
  t_burnout_ms :: u32
  t_deploy_ms :: u32
  tilt_latched :: bool
  mach_ok_acc_ms :: u32
  tilt_bad_acc_ms :: u32
  liftoff_acc_ms :: u32
  burnout_acc_ms :: u32
  imu1_ok :: bool
  bmp1_ok :: bool
  imu2_ok :: bool
  imu1_good_acc :: u32
  imu1_bad_acc :: u32
  bmp1_good_acc :: u32
  bmp1_bad_acc :: u32
  imu2_good_acc :: u32
  imu2_bad_acc :: u32

text \<open>
  The function-local \<^verbatim>\<open>static\<close> variables of \<^verbatim>\<open>update_flags\<close> and
  \<^verbatim>\<open>update_fsm\<close>.  They live for the whole process and are not part of
  \<^verbatim>\<open>FcCoreCtx\<close>.
\<close>

record FcStatics =
  mach_ok_state :: bool
  agree_acc :: u32
  liftoff_latched :: bool
  burnout_latched :: bool

definition statics_boot :: FcStatics where
  "statics_boot = \<lparr>mach_ok_state = False, agree_acc = 0,
     liftoff_latched = False, burnout_latched = False\<rparr>"

definition fc_init :: FcCoreCtx where
  "fc_init = \<lparr>state = FC_PREFLIGHT, flags = 0, t_state_ms = 0, t_launch_ms = 0,
     t_burnout_ms = 0, t_deploy_ms = 0, tilt_latched = False,
     mach_ok_acc_ms = 0, tilt_bad_acc_ms = 0, liftoff_acc_ms = 0, burnout_acc_ms = 0,
     imu1_ok = False, bmp1_ok = False, imu2_ok = False,
     imu1_good_acc = 0, imu1_bad_acc = 0, bmp1_good_acc = 0, bmp1_bad_acc = 0,
     imu2_good_acc = 0, imu2_bad_acc = 0\<rparr>"

subsection \<open>update\_flags\<close>

text \<open>\<^verbatim>\<open>c.flags |= F\<close> when the condition holds, \<^verbatim>\<open>c.flags &= ~F\<close> otherwise.\<close>

definition set_flag :: "u32 \<Rightarrow> bool \<Rightarrow> u32 \<Rightarrow> u32" where
  "set_flag f b w = (if b then w OR f else w AND NOT f)"

text \<open>The debounce lambda \<^verbatim>\<open>upd\<close>, on the triple (ok, good\_acc, bad\_acc).\<close>

definition upd :: "bool \<Rightarrow> bool \<times> u32 \<times> u32 \<Rightarrow> u32 \<Rightarrow> bool \<times> u32 \<times> u32" where
  "upd sample_ok s dt =
     (case s of (ok, good_acc, bad_acc) \<Rightarrow>
        if sample_ok then
          (let good_acc' = good_acc + dt in
           (if \<not> ok \<and> good_acc' \<ge> FC_SENSOR_RECOVERY_MS then True else ok, good_acc', 0))
        else
          (let bad_acc' = bad_acc + dt in
           (if ok \<and> bad_acc' \<ge> FC_SENSOR_INVALID_MS then False else ok, 0, bad_acc')))"

definition debounce_sensors :: "FcCoreCtx \<Rightarrow> FcInputs \<Rightarrow> FcCoreCtx" where
  "debounce_sensors c i =
     (let (o1, g1, b1) = upd (imu1_valid i) (imu1_ok c, imu1_good_acc c, imu1_bad_acc c) (dt_ms i);
          (o2, g2, b2) = upd (bmp1_valid i) (bmp1_ok c, bmp1_good_acc c, bmp1_bad_acc c) (dt_ms i);
          (o3, g3, b3) = upd (imu2_valid i) (imu2_ok c, imu2_good_acc c, imu2_bad_acc c) (dt_ms i)
      in c\<lparr>imu1_ok := o1, imu1_good_acc := g1, imu1_bad_acc := b1,
            bmp1_ok := o2, bmp1_good_acc := g2, bmp1_bad_acc := b2,
            imu2_ok := o3, imu2_good_acc := g3, imu2_bad_acc := b3\<rparr>)"

text \<open>Tilt latch and gate (the accumulator and the latch).\<close>

definition tilt_gate :: "FcCoreCtx \<Rightarrow> FcInputs \<Rightarrow> FcCoreCtx" where
  "tilt_gate c i =
     (let tilt = tilt_deg i in
      if \<not> isnan tilt then
        (if f_ge tilt FC_TILT_ABORT_DEG then
           (let acc = tilt_bad_acc_ms c + dt_ms i in
            c\<lparr>tilt_bad_acc_ms := acc,
              tilt_latched := (if acc \<ge> FC_TILT_ABORT_DWELL_MS then True else tilt_latched c)\<rparr>)
         else c\<lparr>tilt_bad_acc_ms := 0\<rparr>)
      else c)"

text \<open>The vertical speed the Mach proxy uses: the fused one, else the fallback.\<close>

definition mach_vz_in :: "FcInputs \<Rightarrow> flt" where
  "mach_vz_in i = (if \<not> isnan (vz_fused_mps i) then vz_fused_mps i else vz_mps i)"

definition fc_mach :: "FcInputs \<Rightarrow> flt" where
  "fc_mach i =
     (let vz = mach_vz_in i in
      if \<not> isnan vz then
        (let cth = cosf_tilt_abort;
             cth = (if f_lt cth (Fin 0.1) then Fin 0.1 else cth);
             v_body = f_div (fabsf vz) cth
         in f_div v_body FC_SOS_FIXED_MPS)
      else NaN)"

text \<open>Conservative Mach proxy with hysteresis and dwell.\<close>

definition mach_gate :: "FcCoreCtx \<times> FcStatics \<Rightarrow> FcInputs \<Rightarrow> FcCoreCtx \<times> FcStatics" where
  "mach_gate cs i =
     (case cs of (c, s) \<Rightarrow>
      if \<not> isnan (mach_vz_in i) then
        (let mach = fc_mach i;
             on_th = FC_MACH_MAX_FOR_DEPLOY;
             off_th = f_add FC_MACH_MAX_FOR_DEPLOY FC_MACH_HYST;
             (c1, s1) =
               (if f_lt mach on_th then
                  (let acc = mach_ok_acc_ms c + dt_ms i in
                   (c\<lparr>mach_ok_acc_ms := acc\<rparr>,
                    s\<lparr>mach_ok_state :=
                        (if \<not> mach_ok_state s \<and> acc \<ge> FC_MACH_DWELL_MS then True
                         else mach_ok_state s)\<rparr>))
                else if f_gt mach off_th then
                  (c\<lparr>mach_ok_acc_ms := 0\<rparr>, s\<lparr>mach_ok_state := False\<rparr>)
                else (c, s))
         in (c1\<lparr>flags := set_flag FCF_MACH_OK (mach_ok_state s1) (flags c1)\<rparr>, s1))
      else (c, s))"

text \<open>Basic baro agreement gate.\<close>

definition baro_agree_gate :: "FcCoreCtx \<times> FcStatics \<Rightarrow> FcInputs \<Rightarrow> FcCoreCtx \<times> FcStatics" where
  "baro_agree_gate cs i =
     (case cs of (c, s) \<Rightarrow>
      if bmp1_valid i \<and> imu1_valid i \<and> \<not> isnan (bmp1_altitude_m i) \<and> \<not> isnan (imu1_altitude_m i) then
        (let diff = fabsf (f_sub (bmp1_altitude_m i) (imu1_altitude_m i)) in
         if f_le diff FC_BARO_AGREE_M then
           (let acc = agree_acc s + dt_ms i in
            (if acc \<ge> FC_BARO_AGREE_MS then c\<lparr>flags := flags c OR FCF_BARO_AGREE\<rparr> else c,
             s\<lparr>agree_acc := acc\<rparr>))
         else (c\<lparr>flags := flags c AND NOT FCF_BARO_AGREE\<rparr>, s\<lparr>agree_acc := 0\<rparr>))
      else (c, s))"

text \<open>Instantaneous flags.\<close>

definition instant_flags :: "FcCoreCtx \<Rightarrow> FcInputs \<Rightarrow> FcCoreCtx" where
  "instant_flags c i =
     (let tilt = tilt_deg i;
          w = set_flag FCF_SENS_IMU1_OK (imu1_ok c) (flags c);
          w = set_flag FCF_SENS_BMP1_OK (bmp1_ok c) w;
          w = set_flag FCF_SENS_IMU2_OK (imu2_ok c) w;
          w = set_flag FCF_TILT_OK
                (\<not> tilt_latched c \<and> \<not> isnan tilt \<and> f_le tilt FC_TILT_ABORT_DEG) w;
          w = set_flag FCF_TILT_LATCH (tilt_latched c) w
      in c\<lparr>flags := w\<rparr>)"

text \<open>\<^verbatim>\<open>update_flags\<close>; the third component is \<^verbatim>\<open>out_mach\<close>.\<close>

definition update_flags :: "FcCoreCtx \<times> FcStatics \<Rightarrow> FcInputs \<Rightarrow> (FcCoreCtx \<times> FcStatics) \<times> flt" where
  "update_flags cs i =
     (case cs of (c, s) \<Rightarrow>
      let c1 = tilt_gate (debounce_sensors c i) i;
          (c2, s2) = mach_gate (c1, s) i;
          (c3, s3) = baro_agree_gate (c2, s2) i
      in ((instant_flags c3 i, s3), fc_mach i))"

subsection \<open>update\_fsm\<close>

definition liftoff_cond :: "FcInputs \<Rightarrow> bool" where
  "liftoff_cond i =
     ((\<not> isnan (vz_fused_mps i) \<and> f_gt (vz_fused_mps i) FC_VZ_LIFTOFF_MPS)
      \<or> (\<not> isnan (az_imu1_mps2 i) \<and> f_gt (az_imu1_mps2 i) FC_AZ_LIFTOFF_MPS2)
      \<or> (\<not> isnan (agl_fused_m i) \<and> f_ge (agl_fused_m i) FC_LIFTOFF_MIN_AGL_M))"

definition liftoff_detect :: "FcCoreCtx \<times> FcStatics \<Rightarrow> FcInputs \<Rightarrow> FcCoreCtx \<times> FcStatics" where
  "liftoff_detect cs i =
     (case cs of (c, s) \<Rightarrow>
      if \<not> liftoff_latched s then
        (if liftoff_cond i then
           (let acc = liftoff_acc_ms c + dt_ms i in
            if acc \<ge> FC_LIFTOFF_DWELL_MS then
              (c\<lparr>liftoff_acc_ms := acc, t_launch_ms := now_ms i,
                 flags := flags c OR FCF_LIFTOFF_DET\<rparr>,
               s\<lparr>liftoff_latched := True\<rparr>)
            else (c\<lparr>liftoff_acc_ms := acc\<rparr>, s))
         else (c\<lparr>liftoff_acc_ms := 0\<rparr>, s))
      else (c, s))"

definition burnout_detect :: "FcCoreCtx \<times> FcStatics \<Rightarrow> FcInputs \<Rightarrow> FcCoreCtx \<times> FcStatics" where
  "burnout_detect cs i =
     (case cs of (c, s) \<Rightarrow>
      if liftoff_latched s \<and> \<not> burnout_latched s then
        (if \<not> isnan (az_imu1_mps2 i) \<and> f_le (az_imu1_mps2 i) FC_BURNOUT_AZ_DONE_MPS2 then
           (let acc = burnout_acc_ms c + dt_ms i in
            if acc \<ge> FC_BURNOUT_DWELL_MS then
              (c\<lparr>burnout_acc_ms := acc, t_burnout_ms := now_ms i,
                 flags := flags c OR FCF_BURNOUT_DET\<rparr>,
               s\<lparr>burnout_latched := True\<rparr>)
            else (c\<lparr>burnout_acc_ms := acc\<rparr>, s))
         else (c\<lparr>burnout_acc_ms := 0\<rparr>, s))
      else (c, s))"

definition enter :: "FcState \<Rightarrow> FcInputs \<Rightarrow> FcCoreCtx \<Rightarrow> FcCoreCtx" where
  "enter q i c = c\<lparr>state := q, t_state_ms := now_ms i\<rparr>"

definition deploy_gates :: "FcCoreCtx \<Rightarrow> bool" where
  "deploy_gates c =
     (flags c AND FCF_SENS_IMU1_OK \<noteq> 0 \<and> flags c AND FCF_SENS_BMP1_OK \<noteq> 0
      \<and> flags c AND FCF_TILT_OK \<noteq> 0 \<and> flags c AND FCF_MACH_OK \<noteq> 0)"

text \<open>The \<^verbatim>\<open>switch (c.state)\<close> of \<^verbatim>\<open>update_fsm\<close>.\<close>

fun fsm_transition :: "FcState \<Rightarrow> FcCoreCtx \<Rightarrow> FcStatics \<Rightarrow> FcInputs \<Rightarrow> FcCoreCtx" where
  "fsm_transition FC_PREFLIGHT c s i =
     (if tilt_latched c then enter FC_ABORT_LOCKOUT i c
      else if liftoff_latched s then enter FC_BOOST i c else c)"
| "fsm_transition FC_BOOST c s i =
     (if tilt_latched c then enter FC_ABORT_LOCKOUT i c
      else if burnout_latched s then enter FC_POST_BURN_HOLD i c else c)"
| "fsm_transition FC_POST_BURN_HOLD c s i =
     (if tilt_latched c then enter FC_ABORT_LOCKOUT i c
      else if now_ms i - t_state_ms c \<ge> FC_BURNOUT_HOLD_MS then enter FC_WINDOW i c else c)"
| "fsm_transition FC_WINDOW c s i =
     (if tilt_latched c then enter FC_ABORT_LOCKOUT i c
      else if \<not> isnan (agl_fused_m i) \<and> f_ge (agl_fused_m i) FC_MIN_DEPLOY_AGL_M
            \<and> \<not> isnan (apogee_agl_m i)
            \<and> f_ge (apogee_agl_m i) (f_add FC_TARGET_APOGEE_AGL_M FC_APOGEE_HIGH_MARGIN_M)
            \<and> deploy_gates c
           then (enter FC_DEPLOYED i c)\<lparr>t_deploy_ms := now_ms i\<rparr>
      else c)"
| "fsm_transition FC_DEPLOYED c s i =
     (if tilt_latched c then enter FC_ABORT_LOCKOUT i c
      else if \<not> isnan (t_apogee_s i) \<and> f_le (t_apogee_s i) FC_RETRACT_BEFORE_APOGEE_S
           then enter FC_RETRACTING i c
      else if 0 < t_launch_ms c then
        (let t_since_launch = f_mul (u32_to_f (now_ms i - t_launch_ms c)) (Fin 0.001) in
         if f_gt t_since_launch (f_mul FC_EXPECTED_TTA_S FC_EXPECTED_TTA_SCALE_TIMEOUT)
         then enter FC_RETRACTING i c else c)
      else c)"
| "fsm_transition FC_RETRACTING c s i = enter FC_LOCKED i c"
| "fsm_transition FC_LOCKED c s i = c"
| "fsm_transition FC_ABORT_LOCKOUT c s i = c"
| "fsm_transition _ c s i = enter FC_SAFE i c"

definition update_fsm :: "FcCoreCtx \<times> FcStatics \<Rightarrow> FcInputs \<Rightarrow> FcCoreCtx \<times> FcStatics" where
  "update_fsm cs i =
     (let (c1, s1) = liftoff_detect cs i;
          (c2, s2) = burnout_detect (c1, s1) i
      in (fsm_transition (state c2) c2 s2 i, s2))"

subsection \<open>fc\_step\<close>

definition fc_step :: "FcCoreCtx \<times> FcStatics \<Rightarrow> FcInputs \<Rightarrow> (FcCoreCtx \<times> FcStatics) \<times> FcOutputs" where
  "fc_step cs i =
     (let (cs1, mach) = update_flags cs i;
          (c, s) = update_fsm cs1 i;
          cmd_deg = (case state c of FC_DEPLOYED \<Rightarrow> FC_DEPLOY_CMD_DEG | _ \<Rightarrow> Fin 0)
      in ((c, s),
          \<lparr>out_state = state c, out_flags = flags c, airbrake_cmd_deg = cmd_deg,
           t_since_launch_s =
             (if 0 < t_launch_ms c then f_mul (u32_to_f (now_ms i - t_launch_ms c)) (Fin 0.001)
              else Fin 0),
           t_to_apogee_s = t_apogee_s i, mach_cons = mach, out_tilt_deg = tilt_deg i\<rparr>))"

text \<open>A run of ticks, and the run from power-on.\<close>

definition fc_tick :: "FcCoreCtx \<times> FcStatics \<Rightarrow> FcInputs \<Rightarrow> FcCoreCtx \<times> FcStatics" where
  "fc_tick cs i = fst (fc_step cs i)"

definition fc_run :: "FcCoreCtx \<times> FcStatics \<Rightarrow> FcInputs list \<Rightarrow> FcCoreCtx \<times> FcStatics" where
  "fc_run cs is = foldl fc_tick cs is"

definition fc_boot :: "FcCoreCtx \<times> FcStatics" where
  "fc_boot = (fc_init, statics_boot)"

section \<open>Telemetry record (telemetry.h) and its CRC (telemetry.cpp)\<close>

text \<open>
  The fields of \<^verbatim>\<open>TelemetryRecord\<close> that the flight-controller task and the servo
  task read, named by section.  The \<^verbatim>\<open>uint8_t\<close> mirrors hold 0 or 1 and are
  booleans; \<^verbatim>\<open>sys.fc_state\<close> holds an \<^verbatim>\<open>FcState\<close>.
\<close>

record TelemetryRecord =
  hdr_timestamp_ms :: u32
  bmp390_altitude_m :: flt
  bmp390_ok :: bool
  imu1_baro_alt_m :: flt
  imu1_rec_ok :: bool
  imu2_rec_ok :: bool
  sys_fc_state :: FcState
  sys_sens_imu1_ok :: bool
  sys_sens_bmp1_ok :: bool
  sys_sens_imu2_ok :: bool
  sys_tilt_latch :: bool
  sys_fc_t_to_apogee_s :: flt
  fused_agl_ready :: bool
  fused_agl_fused_m :: flt
  fused_t_apogee_s :: flt
  fused_apogee_agl_m :: flt
  fused_vz_mps :: flt
  fused_vz_fused_mps :: flt
  fused_az_imu1_mps2 :: flt
  fused_tilt_deg :: flt
  fused_mach_cons :: flt

text \<open>The inner loop of \<^verbatim>\<open>crc32_update\<close>: \<^verbatim>\<open>j\<close> counts the remaining rounds.\<close>

fun crc32_bits :: "nat \<Rightarrow> u32 \<Rightarrow> u32" where
  "crc32_bits 0 crc = crc"
| "crc32_bits (Suc j) crc =
     (let mask = - (crc AND 1) in crc32_bits j (drop_bit 1 crc XOR (0xEDB88320 AND mask)))"

text \<open>The outer loop over the bytes.\<close>

fun crc32_bytes :: "u32 \<Rightarrow> u8 list \<Rightarrow> u32" where
  "crc32_bytes crc [] = crc"
| "crc32_bytes crc (byte # data) = crc32_bytes (crc32_bits 8 (crc XOR ucast byte)) data"

definition crc32_update :: "u32 \<Rightarrow> u8 list \<Rightarrow> u32" where
  "crc32_update crc data = crc32_bytes (crc XOR 0xFFFFFFFF) data XOR 0xFFFFFFFF"

text \<open>
  The last statement of \<^verbatim>\<open>telemetry_build\<close>.  The record is packed and
  \<^verbatim>\<open>crc32\<close> is its last member, so the first
  \<^verbatim>\<open>sizeof(rec) - sizeof(rec.crc32)\<close> bytes are the bytes of all preceding
  members; \<open>pre\<close> is that byte image.  The flag is the build option
  \<^verbatim>\<open>LOG_INCLUDE_CRC\<close>.
\<close>

definition telemetry_crc32 :: "bool \<Rightarrow> u8 list \<Rightarrow> u32" where
  "telemetry_crc32 LOG_INCLUDE_CRC pre = (if LOG_INCLUDE_CRC then crc32_update 0 pre else 0)"

subsection \<open>The CRC-32 of the specification\<close>

text \<open>
  Reflected IEEE CRC-32 as the specification words it: the register starts at
  0xFFFFFFFF; each byte is XORed into the low end and the register is shifted right
  eight times, the polynomial 0xEDB88320 being XORed in whenever a one is shifted
  out; the result is XORed with 0xFFFFFFFF.
\<close>

definition crc_spec_shift :: "u32 \<Rightarrow> u32" where
  "crc_spec_shift r = (if bit r 0 then drop_bit 1 r XOR 0xEDB88320 else drop_bit 1 r)"

definition crc_spec_byte :: "u32 \<Rightarrow> u8 \<Rightarrow> u32" where
  "crc_spec_byte r b = (crc_spec_shift ^^ 8) (r XOR ucast b)"

definition crc32_ieee_spec :: "u8 list \<Rightarrow> u32" where
  "crc32_ieee_spec data = foldl crc_spec_byte 0xFFFFFFFF data XOR 0xFFFFFFFF"

section \<open>Flight controller task (services/fc.cpp)\<close>

record FcStatus =
  stamp_ms :: u32
  st_state :: FcState
  st_flags :: u32
  st_mach_cons :: flt
  st_tilt_deg :: flt
  st_t_since_launch_s :: flt
  st_t_to_apogee_s :: flt
  st_airbrake_cmd_deg :: flt

text \<open>
  The module statics \<^verbatim>\<open>s_stat\<close>, \<^verbatim>\<open>s_ctx\<close>, \<^verbatim>\<open>s_core_inited\<close>, the statics of
  the core's helpers, and the task's local \<^verbatim>\<open>prev_ms\<close>.
\<close>

record FcTask =
  s_stat :: FcStatus
  s_ctx :: FcCoreCtx
  s_core_inited :: bool
  fc_statics :: FcStatics
  prev_ms :: u32

text \<open>All-zero storage: what static initialisation and \<^verbatim>\<open>memset(_, 0, _)\<close> leave.\<close>

definition FcStatus_zero :: FcStatus where
  "FcStatus_zero = \<lparr>stamp_ms = 0, st_state = FC_SAFE, st_flags = 0, st_mach_cons = Fin 0,
     st_tilt_deg = Fin 0, st_t_since_launch_s = Fin 0, st_t_to_apogee_s = Fin 0,
     st_airbrake_cmd_deg = Fin 0\<rparr>"

definition FcCoreCtx_zero :: FcCoreCtx where
  "FcCoreCtx_zero = \<lparr>state = FC_SAFE, flags = 0, t_state_ms = 0, t_launch_ms = 0,
     t_burnout_ms = 0, t_deploy_ms = 0, tilt_latched = False,
     mach_ok_acc_ms = 0, tilt_bad_acc_ms = 0, liftoff_acc_ms = 0, burnout_acc_ms = 0,
     imu1_ok = False, bmp1_ok = False, imu2_ok = False,
     imu1_good_acc = 0, imu1_bad_acc = 0, bmp1_good_acc = 0, bmp1_bad_acc = 0,
     imu2_good_acc = 0, imu2_bad_acc = 0\<rparr>"

definition fc_task_boot :: FcTask where
  "fc_task_boot = \<lparr>s_stat = FcStatus_zero, s_ctx = FcCoreCtx_zero, s_core_inited = False,
     fc_statics = statics_boot, prev_ms = 0\<rparr>"

text \<open>
  \<^verbatim>\<open>fc_task\<close> up to its \<^verbatim>\<open>for (;;)\<close>: \<open>now\<close> is \<^verbatim>\<open>millis()\<close>.  The core is
  initialised here, before the loop, and nowhere else.
\<close>

definition fc_task_entry :: "FcTask \<Rightarrow> u32 \<Rightarrow> FcTask" where
  "fc_task_entry t now =
     (let t1 = t\<lparr>prev_ms := now\<rparr> in
      if \<not> s_core_inited t1 then t1\<lparr>s_ctx := fc_init, s_core_inited := True\<rparr> else t1)"

definition fc_task_inputs :: "TelemetryRecord \<Rightarrow> u32 \<Rightarrow> u32 \<Rightarrow> FcInputs" where
  "fc_task_inputs rec dt now =
     \<lparr>dt_ms = dt, now_ms = now, tilt_deg = fused_tilt_deg rec,
      agl_fused_m = fused_agl_fused_m rec, vz_fused_mps = fused_vz_fused_mps rec,
      vz_mps = fused_vz_mps rec, az_imu1_mps2 = fused_az_imu1_mps2 rec,
      t_apogee_s = fused_t_apogee_s rec, apogee_agl_m = fused_apogee_agl_m rec,
      agl_ready = fused_agl_ready rec, bmp1_altitude_m = bmp390_altitude_m rec,
      imu1_altitude_m = imu1_baro_alt_m rec, imu1_valid = imu1_rec_ok rec,
      bmp1_valid = bmp390_ok rec, imu2_valid = imu2_rec_ok rec\<rparr>"

text \<open>
  One iteration of the loop of \<^verbatim>\<open>fc_task\<close>: \<open>rec\<close> is what
  \<^verbatim>\<open>telemetryGetLatest\<close> returns and \<open>now\<close> is \<^verbatim>\<open>millis()\<close>.
\<close>

definition fc_task_iter :: "FcTask \<Rightarrow> TelemetryRecord \<Rightarrow> u32 \<Rightarrow> FcTask" where
  "fc_task_iter t rec now =
     (let dt = now - prev_ms t;
          dt = (if dt > 1000 then 1000 else dt);
          dt = (if dt < 1 then 1 else dt);
          ((c, s), out) = fc_step (s_ctx t, fc_statics t) (fc_task_inputs rec dt now)
      in t\<lparr>prev_ms := now, s_ctx := c, fc_statics := s,
           s_stat := \<lparr>stamp_ms = now, st_state = out_state out, st_flags = out_flags out,
                      st_mach_cons = mach_cons out, st_tilt_deg = out_tilt_deg out,
                      st_t_since_launch_s = t_since_launch_s out,
                      st_t_to_apogee_s = t_to_apogee_s out,
                      st_airbrake_cmd_deg = airbrake_cmd_deg out\<rparr>\<rparr>)"

definition fcSoftReset :: "FcTask \<Rightarrow> FcTask" where
  "fcSoftReset t =
     t\<lparr>s_stat := FcStatus_zero\<lparr>st_state := FC_SAFE\<rparr>, s_ctx := FcCoreCtx_zero,
       s_core_inited := False\<rparr>"

section \<open>Fusion service (services/fusion.cpp)\<close>

subsection \<open>Configuration (app\_config.h)\<close>

definition ZERO_AGL_AFTER_MS :: u32 where "ZERO_AGL_AFTER_MS = 10000"
definition FUSION_W_BMP1 :: flt where "FUSION_W_BMP1 = Fin 0.70"
definition FUSION_W_IMU1 :: flt where "FUSION_W_IMU1 = f_sub (Fin 1) FUSION_W_BMP1"
definition FUSION_VZ_ALPHA :: flt where "FUSION_VZ_ALPHA = Fin 0.85"
definition FUSION_VZ_MAX_DT_MS :: flt where "FUSION_VZ_MAX_DT_MS = Fin 200"
definition FUSION_SAFE_TAPX_FACTOR :: flt where "FUSION_SAFE_TAPX_FACTOR = Fin 0.7"
definition FUSION_SAFE_ZAPX_FACTOR :: flt where "FUSION_SAFE_ZAPX_FACTOR = Fin 0.8"
definition FUSION_VZ_FUSE_BETA :: flt where "FUSION_VZ_FUSE_BETA = Fin 0.2"
definition SOS_10KFT_DELTA_K :: flt where "SOS_10KFT_DELTA_K = Fin 19.8"
definition SOS_MIN_FLOOR_MPS :: flt where "SOS_MIN_FLOOR_MPS = Fin 300"
definition G0 :: flt where "G0 = Fin 9.80665"

text \<open>
  \<^verbatim>\<open>cosf(TILT_MAX_DEPLOY_DEG * 0.01745329252f)\<close>, the cosine of 20 degrees, is
  0.9396926 in single precision.
\<close>

definition cosf_tilt_max_deploy :: flt where "cosf_tilt_max_deploy = Fin 0.9396926"

subsection \<open>Data\<close>

text \<open>
  The statics of the module and of \<^verbatim>\<open>fusion_task\<close>.  The attitude outputs (Euler
  angles, tilt, tilt azimuth) with their smoothing statics, and the display-only
  atmospherics (\<^verbatim>\<open>temp_c\<close>, \<^verbatim>\<open>press_hPa\<close>, \<^verbatim>\<open>sos_mps\<close>, \<^verbatim>\<open>mach_vz\<close>), are
  computed from the sensor readings alone and feed no other field of the tick;
  they are left out of the state and of the snapshot.
\<close>

record FusionState =
  s_reset_req :: bool
  s_agl_ready :: bool
  s_agl_arm_ms :: u32
  s_base_bmp1_m :: flt
  s_base_imu1_m :: flt
  have_prev_alt :: bool
  prev_alt :: flt
  fus_prev_ms :: u32
  vz_filt :: flt
  vz_acc :: flt
  have_sos_refs :: bool
  sos_ground_mps :: flt
  sos_10kft_mps :: flt
  sos_min_mps :: flt

definition fusion_boot :: FusionState where
  "fusion_boot = \<lparr>s_reset_req = False, s_agl_ready = False, s_agl_arm_ms = 0,
     s_base_bmp1_m = NaN, s_base_imu1_m = NaN, have_prev_alt = False, prev_alt = NaN,
     fus_prev_ms = 0, vz_filt = NaN, vz_acc = Fin 0, have_sos_refs = False,
     sos_ground_mps = NaN, sos_10kft_mps = NaN, sos_min_mps = SOS_MIN_FLOOR_MPS\<rparr>"

text \<open>
  What one iteration reads: \<^verbatim>\<open>millis()\<close>, and the two sensor snapshots.
  \<open>fi_reset_now\<close> is the \<^verbatim>\<open>millis()\<close> of the reset block, read only when a
  reset is pending; \<open>fi_now\<close> is \<^verbatim>\<open>now\<close>.  \<open>fi_vb\<close> is
  \<^verbatim>\<open>bmp1Get(b) && b.valid\<close> and \<open>fi_vi\<close> is \<^verbatim>\<open>imu1Get(u1) && u1.valid\<close>.
\<close>

record FusionIn =
  fi_reset_now :: u32
  fi_now :: u32
  fi_vb :: bool
  fi_b_altitude_m :: flt
  fi_b_temperature_c :: flt
  fi_vi :: bool
  fi_u1_altitude_m :: flt
  fi_u1_accel_g :: "flt \<times> flt \<times> flt"
  fi_u1_quat :: "flt \<times> flt \<times> flt \<times> flt"

record FusedAlt =
  fa_stamp_ms :: u32
  fa_bmp1_alt_m :: flt
  fa_imu1_alt_m :: flt
  fa_agl_bmp1_m :: flt
  fa_agl_imu1_m :: flt
  fa_agl_fused_m :: flt
  fa_agl_ready :: bool
  fa_vz_mps :: flt
  fa_vz_acc_mps :: flt
  fa_vz_fused_mps :: flt
  fa_az_imu1_mps2 :: flt
  fa_sos_ground_mps :: flt
  fa_sos_10kft_mps :: flt
  fa_sos_min_mps :: flt
  fa_mach_cons :: flt
  fa_t_apogee_s :: flt
  fa_apogee_agl_m :: flt

text \<open>
  \<^verbatim>\<open>static FusedAlt s_fused_alt = {}\<close>, and what \<^verbatim>\<open>memset(&s_fused_alt, 0, ...)\<close>
  leaves: every float 0.0, every flag false.
\<close>

definition FusedAlt_zero :: FusedAlt where
  "FusedAlt_zero = \<lparr>fa_stamp_ms = 0, fa_bmp1_alt_m = Fin 0, fa_imu1_alt_m = Fin 0,
     fa_agl_bmp1_m = Fin 0, fa_agl_imu1_m = Fin 0, fa_agl_fused_m = Fin 0,
     fa_agl_ready = False, fa_vz_mps = Fin 0, fa_vz_acc_mps = Fin 0,
     fa_vz_fused_mps = Fin 0, fa_az_imu1_mps2 = Fin 0,
     fa_sos_ground_mps = Fin 0, fa_sos_10kft_mps = Fin 0,
     fa_sos_min_mps = Fin 0, fa_mach_cons = Fin 0,
     fa_t_apogee_s = Fin 0, fa_apogee_agl_m = Fin 0\<rparr>"

subsection \<open>fusion\_task\<close>

text \<open>\<^verbatim>\<open>rotate_vec_by_quat\<close>: \<open>q = (w, x, y, z)\<close>, body to earth.\<close>

definition rotate_vec_by_quat ::
  "flt \<times> flt \<times> flt \<times> flt \<Rightarrow> flt \<times> flt \<times> flt \<Rightarrow> flt \<times> flt \<times> flt" where
  "rotate_vec_by_quat q v =
     (case q of (w, x, y, z) \<Rightarrow> case v of (v0, v1, v2) \<Rightarrow>
      let xx = f_mul x x; yy = f_mul y y; zz = f_mul z z;
          r00 = f_sub (Fin 1) (f_mul (Fin 2) (f_add yy zz));
          r01 = f_mul (Fin 2) (f_sub (f_mul x y) (f_mul w z));
          r02 = f_mul (Fin 2) (f_add (f_mul x z) (f_mul w y));
          r10 = f_mul (Fin 2) (f_add (f_mul x y) (f_mul w z));
          r11 = f_sub (Fin 1) (f_mul (Fin 2) (f_add xx zz));
          r12 = f_mul (Fin 2) (f_sub (f_mul y z) (f_mul w x));
          r20 = f_mul (Fin 2) (f_sub (f_mul x z) (f_mul w y));
          r21 = f_mul (Fin 2) (f_add (f_mul y z) (f_mul w x));
          r22 = f_sub (Fin 1) (f_mul (Fin 2) (f_add xx yy))
      in (f_add (f_add (f_mul r00 v0) (f_mul r01 v1)) (f_mul r02 v2),
          f_add (f_add (f_mul r10 v0) (f_mul r11 v1)) (f_mul r12 v2),
          f_add (f_add (f_mul r20 v0) (f_mul r21 v1)) (f_mul r22 v2)))"

text \<open>
  The body of \<^verbatim>\<open>if (s_reset_req)\<close>: the statics it resets, and the cleared
  snapshot it publishes under the mutex (\<^verbatim>\<open>memset\<close> to zero, then
  \<^verbatim>\<open>stamp_ms = millis()\<close>), which stays published until the end of the iteration.
\<close>

definition fusion_reset :: "FusionState \<Rightarrow> u32 \<Rightarrow> FusionState \<times> FusedAlt" where
  "fusion_reset s now_r =
     (s\<lparr>s_reset_req := False, have_prev_alt := False, prev_alt := NaN, fus_prev_ms := 0,
        vz_filt := NaN, vz_acc := Fin 0, have_sos_refs := False,
        sos_ground_mps := NaN, sos_10kft_mps := NaN, sos_min_mps := SOS_MIN_FLOOR_MPS,
        s_agl_ready := False, s_agl_arm_ms := 0, s_base_bmp1_m := NaN, s_base_imu1_m := NaN\<rparr>,
      FusedAlt_zero\<lparr>fa_stamp_ms := now_r\<rparr>)"

text \<open>Arming and the lazy capture of the two baselines.\<close>

definition agl_arm :: "FusionState \<Rightarrow> u32 \<Rightarrow> flt \<Rightarrow> flt \<Rightarrow> FusionState" where
  "agl_arm s now bmp_alt imu_alt =
     (let s1 = (if s_agl_arm_ms s = 0 then s\<lparr>s_agl_arm_ms := now + ZERO_AGL_AFTER_MS\<rparr> else s);
          s2 = (if \<not> s_agl_ready s1 \<and> now \<ge> s_agl_arm_ms s1 then s1\<lparr>s_agl_ready := True\<rparr> else s1)
      in if s_agl_ready s2 then
           (let s3 = (if isnan (s_base_bmp1_m s2) \<and> \<not> isnan bmp_alt
                      then s2\<lparr>s_base_bmp1_m := bmp_alt\<rparr> else s2)
            in if isnan (s_base_imu1_m s3) \<and> \<not> isnan imu_alt
               then s3\<lparr>s_base_imu1_m := imu_alt\<rparr> else s3)
         else s2)"

text \<open>The three AGL values \<open>(agl_bmp1, agl_imu1, agl_fused)\<close>.\<close>

definition agl_values :: "FusionState \<Rightarrow> flt \<Rightarrow> flt \<Rightarrow> flt \<times> flt \<times> flt" where
  "agl_values s bmp_alt imu_alt =
     (if s_agl_ready s then
        (let agl_bmp1 = (if \<not> isnan (s_base_bmp1_m s) \<and> \<not> isnan bmp_alt
                         then f_sub bmp_alt (s_base_bmp1_m s) else NaN);
             agl_imu1 = (if \<not> isnan (s_base_imu1_m s) \<and> \<not> isnan imu_alt
                         then f_sub imu_alt (s_base_imu1_m s) else NaN);
             agl_fused =
               (if \<not> isnan agl_bmp1 \<and> \<not> isnan agl_imu1
                then f_add (f_mul FUSION_W_BMP1 agl_bmp1) (f_mul FUSION_W_IMU1 agl_imu1)
                else if \<not> isnan agl_bmp1 then agl_bmp1
                else if \<not> isnan agl_imu1 then agl_imu1
                else NaN)
         in (agl_bmp1, agl_imu1, agl_fused))
      else (NaN, NaN, NaN))"

text \<open>
  Vertical speed from the AGL derivative (EMA).  Returns the state with
  \<open>(vz, dt_s_for_step)\<close>.
\<close>

definition vz_baro :: "FusionState \<Rightarrow> u32 \<Rightarrow> flt \<Rightarrow> FusionState \<times> flt \<times> flt" where
  "vz_baro s now agl_fused =
     (if s_agl_ready s \<and> \<not> isnan agl_fused then
        (let (s1, vz, dt_s) =
               (if have_prev_alt s then
                  (let dt_ms = u32_to_f (now - fus_prev_ms s);
                       dt_ms = (if f_lt dt_ms (Fin 1) then Fin 1 else dt_ms);
                       dt_ms = (if f_gt dt_ms FUSION_VZ_MAX_DT_MS then FUSION_VZ_MAX_DT_MS else dt_ms);
                       dt_s = f_div dt_ms (Fin 1000);
                       dv = f_sub agl_fused (prev_alt s);
                       inst_vz = f_div dv dt_s;
                       vf = (if isnan (vz_filt s) then inst_vz else vz_filt s);
                       vf = f_add (f_mul FUSION_VZ_ALPHA vf)
                                  (f_mul (f_sub (Fin 1) FUSION_VZ_ALPHA) inst_vz)
                   in (s\<lparr>vz_filt := vf\<rparr>, vf, dt_s))
                else (s, NaN, NaN))
         in (s1\<lparr>prev_alt := agl_fused, fus_prev_ms := now, have_prev_alt := True\<rparr>, vz, dt_s))
      else (s\<lparr>have_prev_alt := False, vz_filt := NaN\<rparr>, NaN, NaN))"

text \<open>
  Vertical acceleration in the earth frame and its leaky integration
  (\<^verbatim>\<open>FUSION_USE_ACC_INT\<close> is 1).  Returns the state with \<open>az_e_mps2\<close>.
\<close>

definition az_earth :: "FusionState \<Rightarrow> FusionIn \<Rightarrow> flt \<Rightarrow> FusionState \<times> flt" where
  "az_earth s i dt_s_for_step =
     (if fi_vi i then
        (let (a0, a1, a2) = fi_u1_accel_g i;
             v_b = (f_mul a0 G0, f_mul a1 G0, f_mul a2 G0);
             (e0, e1, e2) = rotate_vec_by_quat (fi_u1_quat i) v_b;
             az_e_mps2 = f_sub e2 G0
         in if \<not> isnan az_e_mps2 \<and> have_prev_alt s then
              (let dt = (if isnan dt_s_for_step then f_div FUSION_VZ_MAX_DT_MS (Fin 1000)
                         else dt_s_for_step);
                   leak = Fin 0.02
               in (s\<lparr>vz_acc := f_add (f_mul (f_sub (Fin 1) leak) (vz_acc s))
                                      (f_mul az_e_mps2 dt)\<rparr>, az_e_mps2))
            else if \<not> have_prev_alt s then (s\<lparr>vz_acc := Fin 0\<rparr>, az_e_mps2)
            else (s, az_e_mps2))
      else (s, NaN))"

text \<open>Conservative speed-of-sound references, computed once.\<close>

definition sos_refs :: "FusionState \<Rightarrow> FusionIn \<Rightarrow> FusionState" where
  "sos_refs s i =
     (if \<not> have_sos_refs s \<and> fi_vb i then
        (let T0 = f_add (fi_b_temperature_c i) (Fin 273.15);
             gamma = Fin 1.4;
             R = Fin 287.05;
             ground = sqrtf (f_mul (f_mul gamma R) T0);
             T10k = f_sub T0 SOS_10KFT_DELTA_K;
             T10k = (if f_lt T10k (Fin 150) then Fin 150 else T10k);
             tenk = sqrtf (f_mul (f_mul gamma R) T10k)
         in s\<lparr>sos_ground_mps := ground, sos_10kft_mps := tenk,
              sos_min_mps := fmaxf SOS_MIN_FLOOR_MPS (fminf ground tenk),
              have_sos_refs := True\<rparr>)
      else s)"

text \<open>Predictor \<open>(t_apx, z_apx)\<close>; \<open>vz\<close> is the baro-derivative speed.\<close>

definition apogee_predict :: "FusionState \<Rightarrow> flt \<Rightarrow> flt \<Rightarrow> flt \<times> flt" where
  "apogee_predict s agl_fused vz =
     (if s_agl_ready s \<and> \<not> isnan agl_fused \<and> \<not> isnan vz then
        (if f_gt vz (Fin 0) then
           (f_mul FUSION_SAFE_TAPX_FACTOR (f_div vz G0),
            f_add agl_fused
              (f_div (f_mul FUSION_SAFE_ZAPX_FACTOR (f_mul vz vz)) (f_mul (Fin 2) G0)))
         else (Fin 0, agl_fused))
      else (NaN, NaN))"

text \<open>Fused vertical speed (complementary).\<close>

definition vz_fuse :: "flt \<Rightarrow> flt \<Rightarrow> flt" where
  "vz_fuse vz vacc =
     (if \<not> isnan vz \<and> \<not> isnan vacc then
        f_add (f_mul FUSION_VZ_FUSE_BETA vz) (f_mul (f_sub (Fin 1) FUSION_VZ_FUSE_BETA) vacc)
      else if \<not> isnan vz then vz
      else if \<not> isnan vacc then vacc
      else NaN)"

text \<open>Conservative Mach proxy, once \<open>vz_fused\<close> is known.\<close>

definition mach_conservative :: "FusionState \<Rightarrow> flt \<Rightarrow> flt" where
  "mach_conservative s vz_fused =
     (if \<not> isnan vz_fused \<and> have_sos_refs s then
        (let c = cosf_tilt_max_deploy;
             c = (if f_lt c (Fin 0.1) then Fin 0.1 else c);
             v_body = f_div (fabsf vz_fused) c
         in f_div v_body (sos_min_mps s))
      else NaN)"

text \<open>
  One iteration of the loop of \<^verbatim>\<open>fusion_task\<close>: the new statics and the snapshot
  published at the end of the iteration.
\<close>

definition fusion_tick :: "FusionState \<Rightarrow> FusionIn \<Rightarrow> FusionState \<times> FusedAlt" where
  "fusion_tick s i =
     (let s0 = (if s_reset_req s then fst (fusion_reset s (fi_reset_now i)) else s);
          bmp_alt = (if fi_vb i then fi_b_altitude_m i else NaN);
          imu_alt = (if fi_vi i then fi_u1_altitude_m i else NaN);
          now = fi_now i;
          s1 = agl_arm s0 now bmp_alt imu_alt;
          (agl_bmp1, agl_imu1, agl_fused) = agl_values s1 bmp_alt imu_alt;
          (s2, vz, dt_s_for_step) = vz_baro s1 now agl_fused;
          (s3, az_e_mps2) = az_earth s2 i dt_s_for_step;
          s4 = sos_refs s3 i;
          (t_apx, z_apx) = apogee_predict s4 agl_fused vz;
          vz_fused = vz_fuse vz (vz_acc s4);
          mach = mach_conservative s4 vz_fused
      in (s4,
          \<lparr>fa_stamp_ms = now, fa_bmp1_alt_m = bmp_alt, fa_imu1_alt_m = imu_alt,
           fa_agl_bmp1_m = agl_bmp1, fa_agl_imu1_m = agl_imu1, fa_agl_fused_m = agl_fused,
           fa_agl_ready = s_agl_ready s4, fa_vz_mps = vz, fa_vz_acc_mps = vz_acc s4,
           fa_vz_fused_mps = vz_fused, fa_az_imu1_mps2 = az_e_mps2,
           fa_sos_ground_mps = sos_ground_mps s4, fa_sos_10kft_mps = sos_10kft_mps s4,
           fa_sos_min_mps = sos_min_mps s4, fa_mach_cons = mach,
           fa_t_apogee_s = t_apx, fa_apogee_agl_m = z_apx\<rparr>))"

text \<open>
  The values that one iteration writes to \<^verbatim>\<open>s_fused_alt\<close>, oldest first: the
  cleared snapshot when a reset is pending, then the snapshot of the end of the
  iteration.  \<^verbatim>\<open>fusionGetAlt\<close> returns whichever is current.
\<close>

definition fusion_published :: "FusionState \<Rightarrow> FusionIn \<Rightarrow> FusedAlt list" where
  "fusion_published s i =
     (if s_reset_req s then [snd (fusion_reset s (fi_reset_now i))] else [])
     @ [snd (fusion_tick s i)]"

definition fusionSoftReset :: "FusionState \<Rightarrow> FusionState" where
  "fusionSoftReset s = s\<lparr>s_reset_req := True\<rparr>"

text \<open>The statics after a run of iterations.\<close>

fun fusion_run :: "FusionState \<Rightarrow> FusionIn list \<Rightarrow> FusionState" where
  "fusion_run s [] = s"
| "fusion_run s (i # is) = fusion_run (fst (fusion_tick s i)) is"

section \<open>Servo actuator (actuator\_servo.cpp)\<close>

definition SERVO_MIN_US :: u16 where "SERVO_MIN_US = 1000"
definition SERVO_MAX_US :: u16 where "SERVO_MAX_US = 1400"
definition SERVO_PWM_FREQ_HZ :: nat where "SERVO_PWM_FREQ_HZ = 50"
definition SERVO_PWM_RES_BITS :: nat where "SERVO_PWM_RES_BITS = 16"

text \<open>
  The module statics, with the duty last handed to \<^verbatim>\<open>ledcWrite\<close>, and the servo
  task's local \<^verbatim>\<open>last_stamp\<close>.
\<close>

record ServoState =
  s_min_us :: u16
  s_max_us :: u16
  s_cmd_us :: u16
  s_open :: bool
  ledc_duty :: u32

record ServoTask =
  servo :: ServoState
  last_stamp :: u32

definition us_to_duty :: "u16 \<Rightarrow> u32" where
  "us_to_duty us =
     (let period_us = 1000000 div SERVO_PWM_FREQ_HZ;
          maxd = 2 ^ SERVO_PWM_RES_BITS - 1;
          duty = (unat us * maxd) div period_us
      in of_nat (if duty > maxd then maxd else duty))"

definition servoWriteUS :: "ServoState \<Rightarrow> u16 \<Rightarrow> ServoState" where
  "servoWriteUS s us =
     (let us = (if us < s_min_us s then s_min_us s else us);
          us = (if us > s_max_us s then s_max_us s else us)
      in s\<lparr>s_cmd_us := us, ledc_duty := us_to_duty us\<rparr>)"

definition servoOpen :: "ServoState \<Rightarrow> ServoState" where
  "servoOpen s = servoWriteUS (s\<lparr>s_open := True\<rparr>) (s_max_us s)"

definition servoClose :: "ServoState \<Rightarrow> ServoState" where
  "servoClose s = servoWriteUS (s\<lparr>s_open := False\<rparr>) (s_min_us s)"

text \<open>The deploy logic of \<^verbatim>\<open>task_servo_ctrl\<close>: the value of \<^verbatim>\<open>should_open\<close>.\<close>

definition should_open :: "TelemetryRecord \<Rightarrow> bool" where
  "should_open rec =
     (let health_ok = (sys_sens_imu1_ok rec \<and> sys_sens_bmp1_ok rec \<and> sys_sens_imu2_ok rec
                       \<and> fused_agl_ready rec);
          tilt_ok = (\<not> sys_tilt_latch rec);
          mach_ok = (\<not> isnan (fused_mach_cons rec) \<and> f_lt (fused_mach_cons rec) (Fin 0.5));
          in_window = (sys_fc_state rec = FC_WINDOW);
          post_burn = (sys_fc_state rec \<noteq> FC_BOOST);
          abort_or_lock = (sys_fc_state rec = FC_ABORT_LOCKOUT \<or> sys_fc_state rec = FC_LOCKED);
          near_apogee = (\<not> isnan (sys_fc_t_to_apogee_s rec)
                         \<and> f_le (sys_fc_t_to_apogee_s rec) (Fin 1));
          open1 = (\<not> abort_or_lock \<and> health_ok \<and> tilt_ok \<and> mach_ok \<and> post_burn \<and> in_window)
      in if abort_or_lock \<or> \<not> health_ok \<or> \<not> tilt_ok \<or> near_apogee then False else open1)"

text \<open>
  One iteration of the loop of \<^verbatim>\<open>task_servo_ctrl\<close>: \<open>rec\<close> is what
  \<^verbatim>\<open>telemetryGetLatest\<close> returns.
\<close>

definition servo_tick :: "ServoTask \<Rightarrow> TelemetryRecord \<Rightarrow> ServoTask" where
  "servo_tick t rec =
     (if hdr_timestamp_ms rec = 0 \<or> hdr_timestamp_ms rec = last_stamp t then
        t\<lparr>servo := servoClose (servo t)\<rparr>
      else
        (let t1 = t\<lparr>last_stamp := hdr_timestamp_ms rec\<rparr>;
             want = should_open rec
         in if want \<noteq> s_open (servo t1) then
              t1\<lparr>servo := (if want then servoOpen (servo t1) else servoClose (servo t1))\<rparr>
            else t1))"

text \<open>The task starts after \<^verbatim>\<open>servoInit\<close>, whose boot sweep ends in \<^verbatim>\<open>servoClose\<close>.\<close>

definition servo_task_boot :: ServoTask where
  "servo_task_boot =
     \<lparr>servo = servoClose \<lparr>s_min_us = SERVO_MIN_US, s_max_us = SERVO_MAX_US,
                          s_cmd_us = (SERVO_MIN_US + SERVO_MAX_US) div 2, s_open = False,
                          ledc_duty = 0\<rparr>,
      last_stamp = 0\<rparr>"

fun servo_run :: "ServoTask \<Rightarrow> TelemetryRecord list \<Rightarrow> ServoTask" where
  "servo_run t [] = t"
| "servo_run t (r # rs) = servo_run (servo_tick t r) rs"

section \<open>Auxiliary notions and concrete scenarios\<close>

text \<open>The C test \<^verbatim>\<open>(flags & F)\<close>.\<close>

definition has_flag :: "u32 \<Rightarrow> u32 \<Rightarrow> bool" where
  "has_flag w f = (w AND f \<noteq> 0)"

text \<open>The states whose \<^verbatim>\<open>case\<close> tests the tilt latch first.\<close>

definition abortable :: "FcState \<Rightarrow> bool" where
  "abortable q = (q = FC_PREFLIGHT \<or> q = FC_BOOST \<or> q = FC_POST_BURN_HOLD
                  \<or> q = FC_WINDOW \<or> q = FC_DEPLOYED)"

text \<open>Inputs of a tick on the pad, and a short flight built from them.\<close>

definition in_pad :: FcInputs where
  "in_pad = \<lparr>dt_ms = 20, now_ms = 20, tilt_deg = Fin 0, agl_fused_m = Fin 0,
     vz_fused_mps = Fin 0, vz_mps = Fin 0, az_imu1_mps2 = Fin 0, t_apogee_s = Fin 20,
     apogee_agl_m = Fin 0, agl_ready = True, bmp1_altitude_m = Fin 100,
     imu1_altitude_m = Fin 100, imu1_valid = True, bmp1_valid = True, imu2_valid = True\<rparr>"

text \<open>Liftoff, burnout and the end of the hold: three ticks from boot to \<open>FC_WINDOW\<close>.\<close>

definition flight3 :: "FcInputs list" where
  "flight3 = [in_pad\<lparr>dt_ms := 1000, now_ms := 1000, az_imu1_mps2 := Fin 40\<rparr>,
              in_pad\<lparr>dt_ms := 1000, now_ms := 2000\<rparr>,
              in_pad\<lparr>dt_ms := 1000, now_ms := 3500\<rparr>]"

definition st_window :: "FcCoreCtx \<times> FcStatics" where
  "st_window =
     (\<lparr>state = FC_WINDOW, flags = 447, t_state_ms = 3500, t_launch_ms = 1000,
       t_burnout_ms = 2000, t_deploy_ms = 0, tilt_latched = False,
       mach_ok_acc_ms = 3000, tilt_bad_acc_ms = 0, liftoff_acc_ms = 1000,
       burnout_acc_ms = 1000, imu1_ok = True, bmp1_ok = True, imu2_ok = True,
       imu1_good_acc = 3000, imu1_bad_acc = 0, bmp1_good_acc = 3000,
       bmp1_bad_acc = 0, imu2_good_acc = 3000, imu2_bad_acc = 0\<rparr>,
      \<lparr>mach_ok_state = True, agree_acc = 3000, liftoff_latched = True,
       burnout_latched = True\<rparr>)"

definition in_deploy :: FcInputs where
  "in_deploy = in_pad\<lparr>dt_ms := 500, now_ms := 4000, agl_fused_m := Fin 800,
                       apogee_agl_m := Fin 3200\<rparr>"

text \<open>Apogee five seconds away or less, with the rocket tilted 45 degrees.\<close>

definition in_tilted :: "u32 \<Rightarrow> FcInputs" where
  "in_tilted now = in_deploy\<lparr>dt_ms := 100, now_ms := now, tilt_deg := Fin 45,
                             t_apogee_s := Fin 4\<rparr>"

text \<open>A tick whose barometer sample is invalid.\<close>

definition in_no_bmp :: FcInputs where
  "in_no_bmp = in_pad\<lparr>dt_ms := 500, now_ms := 4000, bmp1_valid := False\<rparr>"

text \<open>
  The time the Mach gate has accumulated after a run of inputs, read off the inputs
  alone: a sample below the ON threshold adds its \<open>dt_ms\<close>, a sample above the OFF
  threshold clears the sum, and a sample between the thresholds or with no speed
  (NaN) leaves it as it is.
\<close>

definition mach_dwell_step :: "u32 \<Rightarrow> FcInputs \<Rightarrow> u32" where
  "mach_dwell_step acc i =
     (if isnan (fc_mach i) then acc
      else if f_lt (fc_mach i) FC_MACH_MAX_FOR_DEPLOY then acc + dt_ms i
      else if f_gt (fc_mach i) (f_add FC_MACH_MAX_FOR_DEPLOY FC_MACH_HYST) then 0
      else acc)"

definition mach_dwell :: "FcInputs list \<Rightarrow> u32" where
  "mach_dwell is = foldl mach_dwell_step 0 is"

text \<open>Pad inputs with a chosen period, time and fused vertical speed.\<close>

definition in_mach :: "u32 \<Rightarrow> u32 \<Rightarrow> flt \<Rightarrow> FcInputs" where
  "in_mach dt now vz = in_pad\<lparr>dt_ms := dt, now_ms := now, vz_fused_mps := vz\<rparr>"

text \<open>200 ms at Mach 0, then one 20 ms sample between the two thresholds.\<close>

definition mach_run :: "FcInputs list" where
  "mach_run = [in_mach 200 200 (Fin 0), in_mach 20 220 (Fin 132)]"

text \<open>A telemetry record on the pad, and the task after one iteration that sees liftoff.\<close>

definition rec_pad :: TelemetryRecord where
  "rec_pad = \<lparr>hdr_timestamp_ms = 1000, bmp390_altitude_m = Fin 100, bmp390_ok = True,
     imu1_baro_alt_m = Fin 100, imu1_rec_ok = True, imu2_rec_ok = True,
     sys_fc_state = FC_PREFLIGHT, sys_sens_imu1_ok = False, sys_sens_bmp1_ok = False,
     sys_sens_imu2_ok = False, sys_tilt_latch = False, sys_fc_t_to_apogee_s = Fin 0,
     fused_agl_ready = True, fused_agl_fused_m = Fin 0, fused_t_apogee_s = Fin 0,
     fused_apogee_agl_m = Fin 0, fused_vz_mps = Fin 0, fused_vz_fused_mps = Fin 0,
     fused_az_imu1_mps2 = Fin 0, fused_tilt_deg = Fin 0, fused_mach_cons = Fin 0\<rparr>"

definition task_boost :: FcTask where
  "task_boost = fc_task_iter (fc_task_entry fc_task_boot 0)
                  (rec_pad\<lparr>fused_az_imu1_mps2 := Fin 40\<rparr>) 1000"

text \<open>The task after that iteration, and after a soft reset and one more iteration.\<close>

definition task_boost_val :: FcTask where
  "task_boost_val =
     \<lparr>s_stat = \<lparr>stamp_ms = 1000, st_state = FC_BOOST, st_flags = 184, st_mach_cons = Fin 0,
         st_tilt_deg = Fin 0, st_t_since_launch_s = Fin 0, st_t_to_apogee_s = Fin 0,
         st_airbrake_cmd_deg = Fin 0\<rparr>,
      s_ctx = \<lparr>state = FC_BOOST, flags = 184, t_state_ms = 1000, t_launch_ms = 1000,
         t_burnout_ms = 0, t_deploy_ms = 0, tilt_latched = False,
         mach_ok_acc_ms = 1000, tilt_bad_acc_ms = 0, liftoff_acc_ms = 1000,
         burnout_acc_ms = 0, imu1_ok = False, bmp1_ok = False, imu2_ok = False,
         imu1_good_acc = 1000, imu1_bad_acc = 0, bmp1_good_acc = 1000, bmp1_bad_acc = 0,
         imu2_good_acc = 1000, imu2_bad_acc = 0\<rparr>,
      s_core_inited = True,
      fc_statics = \<lparr>mach_ok_state = True, agree_acc = 1000, liftoff_latched = True,
         burnout_latched = False\<rparr>,
      prev_ms = 1000\<rparr>"

definition task_reset_val :: FcTask where
  "task_reset_val =
     \<lparr>s_stat = \<lparr>stamp_ms = 1020, st_state = FC_SAFE, st_flags = 56, st_mach_cons = Fin 0,
         st_tilt_deg = Fin 0, st_t_since_launch_s = Fin 0, st_t_to_apogee_s = Fin 0,
         st_airbrake_cmd_deg = Fin 0\<rparr>,
      s_ctx = \<lparr>state = FC_SAFE, flags = 56, t_state_ms = 1020, t_launch_ms = 0,
         t_burnout_ms = 0, t_deploy_ms = 0, tilt_latched = False,
         mach_ok_acc_ms = 20, tilt_bad_acc_ms = 0, liftoff_acc_ms = 0,
         burnout_acc_ms = 20, imu1_ok = False, bmp1_ok = False, imu2_ok = False,
         imu1_good_acc = 20, imu1_bad_acc = 0, bmp1_good_acc = 20, bmp1_bad_acc = 0,
         imu2_good_acc = 20, imu2_bad_acc = 0\<rparr>,
      s_core_inited = False,
      fc_statics = \<lparr>mach_ok_state = True, agree_acc = 1020, liftoff_latched = True,
         burnout_latched = False\<rparr>,
      prev_ms = 1020\<rparr>"

text \<open>Iterations of the fusion task interleaved with soft-reset requests.\<close>

datatype FusionEvent = Iter FusionIn | ResetReq

fun fusion_exec :: "FusionState \<Rightarrow> FusionEvent list \<Rightarrow> FusionState" where
  "fusion_exec s [] = s"
| "fusion_exec s (Iter i # es) = fusion_exec (fst (fusion_tick s i)) es"
| "fusion_exec s (ResetReq # es) = fusion_exec (fusionSoftReset s) es"

text \<open>
  Inputs of a fusion iteration: no valid sensor; both sensors valid; the IMU alone
  (identity quaternion, acceleration along the vertical axis in g).
\<close>

definition fin_blind :: "u32 \<Rightarrow> FusionIn" where
  "fin_blind now = \<lparr>fi_reset_now = now, fi_now = now, fi_vb = False, fi_b_altitude_m = Fin 0,
     fi_b_temperature_c = Fin 0, fi_vi = False, fi_u1_altitude_m = Fin 0,
     fi_u1_accel_g = (Fin 0, Fin 0, Fin 0), fi_u1_quat = (Fin 1, Fin 0, Fin 0, Fin 0)\<rparr>"

definition fin_at :: "u32 \<Rightarrow> flt \<Rightarrow> flt \<Rightarrow> FusionIn" where
  "fin_at now alt az_g = \<lparr>fi_reset_now = now, fi_now = now, fi_vb = True, fi_b_altitude_m = alt,
     fi_b_temperature_c = Fin 15, fi_vi = True, fi_u1_altitude_m = alt,
     fi_u1_accel_g = (Fin 0, Fin 0, az_g), fi_u1_quat = (Fin 1, Fin 0, Fin 0, Fin 0)\<rparr>"

definition fin_imu :: "u32 \<Rightarrow> flt \<Rightarrow> flt \<Rightarrow> FusionIn" where
  "fin_imu now alt az_g = \<lparr>fi_reset_now = now, fi_now = now, fi_vb = False, fi_b_altitude_m = Fin 0,
     fi_b_temperature_c = Fin 0, fi_vi = True, fi_u1_altitude_m = alt,
     fi_u1_accel_g = (Fin 0, Fin 0, az_g), fi_u1_quat = (Fin 1, Fin 0, Fin 0, Fin 0)\<rparr>"

text \<open>The statics after the first iteration at 1 ms, and after the arming iteration.\<close>

definition fus_armed :: FusionState where
  "fus_armed = fusion_boot\<lparr>s_agl_arm_ms := 10001\<rparr>"

definition fus_ready :: FusionState where
  "fus_ready = \<lparr>s_reset_req = False, s_agl_ready = True, s_agl_arm_ms = 10001,
     s_base_bmp1_m = NaN, s_base_imu1_m = Fin 100, have_prev_alt = True, prev_alt = Fin 0,
     fus_prev_ms = 10001, vz_filt = NaN, vz_acc = Fin 0, have_sos_refs = False,
     sos_ground_mps = NaN, sos_10kft_mps = NaN, sos_min_mps = Fin 300\<rparr>"

text \<open>The statics after a 20 ms iteration that sees the IMU altitude rise by 1 cm.\<close>

definition fus_climb :: FusionState where
  "fus_climb = fus_ready\<lparr>prev_alt := Fin 0.01, fus_prev_ms := 10021, vz_filt := Fin 0.5,
                          vz_acc := Fin (- 0.1372931)\<rparr>"

text \<open>What every iteration keeps: the conservative bound is at least the floor, and the
  accelerometer integral is a number.\<close>

definition sos_inv :: "FusionState \<Rightarrow> bool" where
  "sos_inv s = (f_ge (sos_min_mps s) SOS_MIN_FLOOR_MPS \<and> \<not> isnan (vz_acc s))"

text \<open>Inputs with no fused vertical speed but a baro-derivative one.\<close>

definition in_fallback :: FcInputs where
  "in_fallback = in_pad\<lparr>vz_fused_mps := NaN, vz_mps := Fin 10\<rparr>"

text \<open>The ASCII digits 1 to 9, the usual CRC check input.\<close>

definition check_bytes :: "u8 list" where
  "check_bytes = [0x31, 0x32, 0x33, 0x34, 0x35, 0x36, 0x37, 0x38, 0x39]"

text \<open>A fresh record in \<open>FC_WINDOW\<close> with every gate satisfied.\<close>

definition rec_window :: TelemetryRecord where
  "rec_window = \<lparr>hdr_timestamp_ms = 3520, bmp390_altitude_m = Fin 900, bmp390_ok = True,
     imu1_baro_alt_m = Fin 900, imu1_rec_ok = True, imu2_rec_ok = True,
     sys_fc_state = FC_WINDOW, sys_sens_imu1_ok = True, sys_sens_bmp1_ok = True,
     sys_sens_imu2_ok = True, sys_tilt_latch = False, sys_fc_t_to_apogee_s = Fin 8,
     fused_agl_ready = True, fused_agl_fused_m = Fin 800, fused_t_apogee_s = Fin 8,
     fused_apogee_agl_m = Fin 3200, fused_vz_mps = Fin 100, fused_vz_fused_mps = Fin 100,
     fused_az_imu1_mps2 = Fin (- 10), fused_tilt_deg = Fin 2, fused_mach_cons = Fin 0.35\<rparr>"

section \<open>Properties of the flight controller core\<close>

subsection \<open>Unfolding sets\<close>

lemmas fc_consts =
  FC_SOS_FIXED_MPS_def FC_MACH_MAX_FOR_DEPLOY_def FC_MACH_HYST_def FC_MACH_DWELL_MS_def
  FC_TILT_ABORT_DEG_def FC_TILT_ABORT_DWELL_MS_def FC_VZ_LIFTOFF_MPS_def FC_AZ_LIFTOFF_MPS2_def
  FC_LIFTOFF_MIN_AGL_M_def FC_LIFTOFF_DWELL_MS_def FC_BURNOUT_AZ_DONE_MPS2_def
  FC_BURNOUT_DWELL_MS_def FC_BURNOUT_HOLD_MS_def FC_MIN_DEPLOY_AGL_M_def
  FC_TARGET_APOGEE_AGL_M_def FC_APOGEE_HIGH_MARGIN_M_def FC_RETRACT_BEFORE_APOGEE_S_def
  FC_EXPECTED_TTA_S_def FC_EXPECTED_TTA_SCALE_TIMEOUT_def FC_SENSOR_INVALID_MS_def
  FC_SENSOR_RECOVERY_MS_def FC_BARO_AGREE_M_def FC_BARO_AGREE_MS_def FC_DEPLOY_CMD_DEG_def
  cosf_tilt_abort_def

lemmas fcf_defs = FCF_SENS_IMU1_OK_def FCF_SENS_BMP1_OK_def FCF_SENS_IMU2_OK_def
  FCF_BARO_AGREE_def FCF_MACH_OK_def FCF_TILT_OK_def FCF_TILT_LATCH_def FCF_LIFTOFF_DET_def
  FCF_BURNOUT_DET_def

lemmas fc_defs = fc_step_def update_flags_def update_fsm_def debounce_sensors_def upd_def
  tilt_gate_def mach_gate_def fc_mach_def mach_vz_in_def baro_agree_gate_def instant_flags_def
  liftoff_detect_def liftoff_cond_def burnout_detect_def enter_def deploy_gates_def set_flag_def
  f_gt_def f_ge_def u32_to_f_def

lemmas scen_defs = fc_run_def fc_tick_def fc_boot_def fc_init_def statics_boot_def
  in_pad_def flight3_def in_deploy_def in_tilted_def in_no_bmp_def

lemmas fc_eval = scen_defs fc_defs fc_consts fcf_defs

lemma fc_run_append: "fc_run cs (xs @ ys) = fc_run (fc_run cs xs) ys"
  by (simp add: fc_run_def)

lemma flight3_window: "fc_run fc_boot flight3 = st_window"
  by (simp add: st_window_def fc_eval)

subsection \<open>Single bits of the flag word\<close>

lemma and_bit_eq:
  "k < 32 \<Longrightarrow> ((w::u32) AND push_bit k 1 = v AND push_bit k 1) = (bit w k = bit v k)"
proof
  assume k: "k < 32" and e: "w AND push_bit k 1 = v AND push_bit k 1"
  from e have "bit (w AND push_bit k 1) k = bit (v AND push_bit k 1) k"
    by simp
  with k show "bit w k = bit v k"
    by (simp add: bit_simps)
next
  assume "k < 32" and "bit w k = bit v k"
  then show "w AND push_bit k 1 = v AND push_bit k 1"
    by (intro bit_eqI) (auto simp add: bit_simps)
qed

lemma bit_set_flag:
  "k < 32 \<Longrightarrow> bit (set_flag (push_bit k 1) b (w::u32)) n = (if n = k then b else bit w n)"
  by (auto simp add: set_flag_def bit_simps dest: bit_imp_le_length)

lemma bit_or_flag: "k < 32 \<Longrightarrow> bit ((w::u32) OR push_bit k 1) n = (n = k \<or> bit w n)"
  by (auto simp add: bit_simps)

lemma bit_clear_flag:
  "k < 32 \<Longrightarrow> bit ((w::u32) AND NOT (push_bit k 1)) n = (n \<noteq> k \<and> bit w n)"
  by (auto simp add: bit_simps dest: bit_imp_le_length)

lemma flag_test: "k < 32 \<Longrightarrow> ((w::u32) AND push_bit k 1 \<noteq> 0) = bit w k"
  by (simp add: and_exp_eq_0_iff_not_bit push_bit_of_1)

lemma bit_set_IMU1: "bit (set_flag FCF_SENS_IMU1_OK b w) n = (if n = 0 then b else bit w n)"
  unfolding FCF_SENS_IMU1_OK_def by (rule bit_set_flag) simp

lemma bit_set_BMP1: "bit (set_flag FCF_SENS_BMP1_OK b w) n = (if n = 1 then b else bit w n)"
  unfolding FCF_SENS_BMP1_OK_def by (rule bit_set_flag) simp

lemma bit_set_IMU2: "bit (set_flag FCF_SENS_IMU2_OK b w) n = (if n = 2 then b else bit w n)"
  unfolding FCF_SENS_IMU2_OK_def by (rule bit_set_flag) simp

lemma bit_set_MACH: "bit (set_flag FCF_MACH_OK b w) n = (if n = 4 then b else bit w n)"
  unfolding FCF_MACH_OK_def by (rule bit_set_flag) simp

lemma bit_set_TILT_OK: "bit (set_flag FCF_TILT_OK b w) n = (if n = 5 then b else bit w n)"
  unfolding FCF_TILT_OK_def by (rule bit_set_flag) simp

lemma bit_set_TILT_LATCH: "bit (set_flag FCF_TILT_LATCH b w) n = (if n = 6 then b else bit w n)"
  unfolding FCF_TILT_LATCH_def by (rule bit_set_flag) simp

lemma bit_or_BARO: "bit (w OR FCF_BARO_AGREE) n = (n = 3 \<or> bit w n)"
  unfolding FCF_BARO_AGREE_def by (rule bit_or_flag) simp

lemma bit_clear_BARO: "bit (w AND NOT FCF_BARO_AGREE) n = (n \<noteq> 3 \<and> bit w n)"
  unfolding FCF_BARO_AGREE_def by (rule bit_clear_flag) simp

lemma bit_or_LIFTOFF: "bit (w OR FCF_LIFTOFF_DET) n = (n = 7 \<or> bit w n)"
  unfolding FCF_LIFTOFF_DET_def by (rule bit_or_flag) simp

lemma bit_or_BURNOUT: "bit (w OR FCF_BURNOUT_DET) n = (n = 8 \<or> bit w n)"
  unfolding FCF_BURNOUT_DET_def by (rule bit_or_flag) simp

lemma and_BARO_eq: "(w AND FCF_BARO_AGREE = v AND FCF_BARO_AGREE) = (bit w 3 = bit v 3)"
  unfolding FCF_BARO_AGREE_def by (rule and_bit_eq) simp

lemma has_flag_MACH: "has_flag w FCF_MACH_OK = bit w 4"
  unfolding has_flag_def FCF_MACH_OK_def by (rule flag_test) simp

lemmas bit_flag_ops = bit_set_IMU1 bit_set_BMP1 bit_set_IMU2 bit_set_MACH bit_set_TILT_OK
  bit_set_TILT_LATCH bit_or_BARO bit_clear_BARO bit_or_LIFTOFF bit_or_BURNOUT

subsection \<open>What each stage of a tick leaves alone\<close>

lemma fc_tick_unfold:
  "fc_tick (c, s) i =
     (let c1 = tilt_gate (debounce_sensors c i) i;
          m = mach_gate (c1, s) i;
          b = baro_agree_gate m i;
          l = liftoff_detect (instant_flags (fst b) i, snd b) i;
          u = burnout_detect l i
      in (fsm_transition (state (fst u)) (fst u) (snd u) i, snd u))"
  by (simp add: fc_tick_def fc_step_def update_flags_def update_fsm_def Let_def
      split: prod.splits)

lemma flags_debounce [simp]: "flags (debounce_sensors c i) = flags c"
  by (simp add: debounce_sensors_def Let_def split: prod.splits)

lemma latch_debounce [simp]: "tilt_latched (debounce_sensors c i) = tilt_latched c"
  by (simp add: debounce_sensors_def Let_def split: prod.splits)

lemma state_debounce [simp]: "state (debounce_sensors c i) = state c"
  by (simp add: debounce_sensors_def Let_def split: prod.splits)

lemma tilt_acc_debounce [simp]: "tilt_bad_acc_ms (debounce_sensors c i) = tilt_bad_acc_ms c"
  by (simp add: debounce_sensors_def Let_def split: prod.splits)

lemma mach_acc_debounce [simp]: "mach_ok_acc_ms (debounce_sensors c i) = mach_ok_acc_ms c"
  by (simp add: debounce_sensors_def Let_def split: prod.splits)

lemma flags_tilt_gate [simp]: "flags (tilt_gate c i) = flags c"
  by (simp add: tilt_gate_def Let_def)

lemma state_tilt_gate [simp]: "state (tilt_gate c i) = state c"
  by (simp add: tilt_gate_def Let_def)

lemma mach_acc_tilt_gate [simp]: "mach_ok_acc_ms (tilt_gate c i) = mach_ok_acc_ms c"
  by (simp add: tilt_gate_def Let_def)

lemma latch_tilt_gate:
  "tilt_latched (tilt_gate c i) =
     (tilt_latched c \<or> (f_ge (tilt_deg i) FC_TILT_ABORT_DEG
                         \<and> tilt_bad_acc_ms c + dt_ms i \<ge> FC_TILT_ABORT_DWELL_MS))"
  by (cases "tilt_deg i") (auto simp add: tilt_gate_def Let_def f_ge_def FC_TILT_ABORT_DEG_def)

lemma bit_flags_mach_gate:
  "n \<noteq> 4 \<Longrightarrow> bit (flags (fst (mach_gate (c, s) i))) n = bit (flags c) n"
  by (simp add: mach_gate_def Let_def bit_flag_ops split: prod.splits if_splits)

lemma agree_acc_mach_gate [simp]: "agree_acc (snd (mach_gate (c, s) i)) = agree_acc s"
  by (simp add: mach_gate_def Let_def split: prod.splits if_splits)

lemma latch_mach_gate [simp]: "tilt_latched (fst (mach_gate (c, s) i)) = tilt_latched c"
  by (simp add: mach_gate_def Let_def split: prod.splits)

lemma state_mach_gate [simp]: "state (fst (mach_gate (c, s) i)) = state c"
  by (simp add: mach_gate_def Let_def split: prod.splits)

lemma baro_gate_skip:
  "\<not> bmp1_valid i \<or> \<not> imu1_valid i \<or> isnan (bmp1_altitude_m i) \<or> isnan (imu1_altitude_m i)
   \<Longrightarrow> baro_agree_gate cs i = cs"
  by (auto simp add: baro_agree_gate_def split: prod.splits)

lemma latch_baro [simp]: "tilt_latched (fst (baro_agree_gate cs i)) = tilt_latched (fst cs)"
  by (simp add: baro_agree_gate_def Let_def split: prod.splits)

lemma state_baro [simp]: "state (fst (baro_agree_gate cs i)) = state (fst cs)"
  by (simp add: baro_agree_gate_def Let_def split: prod.splits)

lemma mach_acc_baro [simp]: "mach_ok_acc_ms (fst (baro_agree_gate cs i)) = mach_ok_acc_ms (fst cs)"
  by (simp add: baro_agree_gate_def Let_def split: prod.splits)

lemma mach_state_baro [simp]: "mach_ok_state (snd (baro_agree_gate cs i)) = mach_ok_state (snd cs)"
  by (simp add: baro_agree_gate_def Let_def split: prod.splits)

lemma bit_flags_baro:
  "n \<noteq> 3 \<Longrightarrow> bit (flags (fst (baro_agree_gate cs i))) n = bit (flags (fst cs)) n"
  by (simp add: baro_agree_gate_def Let_def bit_flag_ops split: prod.splits)

lemma bit_flags_instant:
  "n \<notin> {0, 1, 2, 5, 6} \<Longrightarrow> bit (flags (instant_flags c i)) n = bit (flags c) n"
  by (simp add: instant_flags_def Let_def bit_flag_ops)

lemma latch_instant [simp]: "tilt_latched (instant_flags c i) = tilt_latched c"
  by (simp add: instant_flags_def Let_def)

lemma state_instant [simp]: "state (instant_flags c i) = state c"
  by (simp add: instant_flags_def Let_def)

lemma mach_acc_instant [simp]: "mach_ok_acc_ms (instant_flags c i) = mach_ok_acc_ms c"
  by (simp add: instant_flags_def Let_def)

lemma bit_flags_liftoff:
  "n \<noteq> 7 \<Longrightarrow> bit (flags (fst (liftoff_detect cs i))) n = bit (flags (fst cs)) n"
  by (simp add: liftoff_detect_def Let_def bit_flag_ops split: prod.splits)

lemma agree_acc_liftoff [simp]: "agree_acc (snd (liftoff_detect cs i)) = agree_acc (snd cs)"
  by (simp add: liftoff_detect_def Let_def split: prod.splits)

lemma mach_state_liftoff [simp]:
  "mach_ok_state (snd (liftoff_detect cs i)) = mach_ok_state (snd cs)"
  by (simp add: liftoff_detect_def Let_def split: prod.splits)

lemma mach_acc_liftoff [simp]:
  "mach_ok_acc_ms (fst (liftoff_detect cs i)) = mach_ok_acc_ms (fst cs)"
  by (simp add: liftoff_detect_def Let_def split: prod.splits)

lemma latch_liftoff [simp]: "tilt_latched (fst (liftoff_detect cs i)) = tilt_latched (fst cs)"
  by (simp add: liftoff_detect_def Let_def split: prod.splits)

lemma state_liftoff [simp]: "state (fst (liftoff_detect cs i)) = state (fst cs)"
  by (simp add: liftoff_detect_def Let_def split: prod.splits)

lemma bit_flags_burnout:
  "n \<noteq> 8 \<Longrightarrow> bit (flags (fst (burnout_detect cs i))) n = bit (flags (fst cs)) n"
  by (simp add: burnout_detect_def Let_def bit_flag_ops split: prod.splits)

lemma agree_acc_burnout [simp]: "agree_acc (snd (burnout_detect cs i)) = agree_acc (snd cs)"
  by (simp add: burnout_detect_def Let_def split: prod.splits)

lemma mach_state_burnout [simp]:
  "mach_ok_state (snd (burnout_detect cs i)) = mach_ok_state (snd cs)"
  by (simp add: burnout_detect_def Let_def split: prod.splits)

lemma mach_acc_burnout [simp]:
  "mach_ok_acc_ms (fst (burnout_detect cs i)) = mach_ok_acc_ms (fst cs)"
  by (simp add: burnout_detect_def Let_def split: prod.splits)

lemma latch_burnout [simp]: "tilt_latched (fst (burnout_detect cs i)) = tilt_latched (fst cs)"
  by (simp add: burnout_detect_def Let_def split: prod.splits)

lemma state_burnout [simp]: "state (fst (burnout_detect cs i)) = state (fst cs)"
  by (simp add: burnout_detect_def Let_def split: prod.splits)

lemma flags_fsm_transition [simp]: "flags (fsm_transition q c s i) = flags c"
  by (cases q) (simp_all add: enter_def Let_def)

lemma latch_fsm [simp]: "tilt_latched (fsm_transition q c s i) = tilt_latched c"
  by (cases q) (simp_all add: enter_def Let_def)

lemma mach_acc_fsm [simp]: "mach_ok_acc_ms (fsm_transition q c s i) = mach_ok_acc_ms c"
  by (cases q) (simp_all add: enter_def Let_def)

lemma state_fsm_latched:
  "tilt_latched c \<Longrightarrow> abortable q \<or> q = FC_ABORT_LOCKOUT \<Longrightarrow>
   state c = q \<Longrightarrow> state (fsm_transition q c s i) = FC_ABORT_LOCKOUT"
  by (cases q) (simp_all add: enter_def abortable_def)

subsection \<open>Airbrake command\<close>

text \<open>
  Claim C1.  After every \<^verbatim>\<open>fc_step\<close> the reported state is the state of the
  context, the commanded angle is \<open>FC_DEPLOY_CMD_DEG\<close> (30 degrees) exactly when
  that state is \<open>FC_DEPLOYED\<close> and 0 degrees in every other state, so a positive
  command implies \<open>FC_DEPLOYED\<close>.
\<close>

theorem airbrake_cmd_iff_deployed:
  "out_state (snd (fc_step cs i)) = state (fst (fst (fc_step cs i)))
   \<and> (airbrake_cmd_deg (snd (fc_step cs i)) = FC_DEPLOY_CMD_DEG
        \<longleftrightarrow> out_state (snd (fc_step cs i)) = FC_DEPLOYED)
   \<and> (out_state (snd (fc_step cs i)) \<noteq> FC_DEPLOYED
        \<longrightarrow> airbrake_cmd_deg (snd (fc_step cs i)) = Fin 0)
   \<and> (f_gt (airbrake_cmd_deg (snd (fc_step cs i))) (Fin 0)
        \<longrightarrow> out_state (snd (fc_step cs i)) = FC_DEPLOYED)
   \<and> FC_DEPLOY_CMD_DEG = Fin 30"
  by (simp add: fc_step_def FC_DEPLOY_CMD_DEG_def f_gt_def split: prod.splits FcState.splits)

lemma window_deploys: "state (fst (fst (fc_step st_window in_deploy))) = FC_DEPLOYED"
  by (simp add: st_window_def fc_eval)

lemma boot_stays_preflight: "state (fst (fst (fc_step fc_boot in_pad))) = FC_PREFLIGHT"
  by (simp add: fc_eval)

theorem airbrake_cmd_iff_deployed_witness:
  "f_gt (airbrake_cmd_deg (snd (fc_step (fc_run fc_boot flight3) in_deploy))) (Fin 0)
   \<and> airbrake_cmd_deg (snd (fc_step (fc_run fc_boot flight3) in_deploy)) = Fin 30
   \<and> out_state (snd (fc_step (fc_run fc_boot flight3) in_deploy)) = FC_DEPLOYED
   \<and> out_state (snd (fc_step fc_boot in_pad)) \<noteq> FC_DEPLOYED
   \<and> airbrake_cmd_deg (snd (fc_step fc_boot in_pad)) = Fin 0"
proof -
  have d: "out_state (snd (fc_step st_window in_deploy)) = FC_DEPLOYED"
    using airbrake_cmd_iff_deployed [of st_window in_deploy] window_deploys by simp
  then have a: "airbrake_cmd_deg (snd (fc_step st_window in_deploy)) = Fin 30"
    using airbrake_cmd_iff_deployed [of st_window in_deploy] by simp
  have p: "out_state (snd (fc_step fc_boot in_pad)) \<noteq> FC_DEPLOYED"
    using airbrake_cmd_iff_deployed [of fc_boot in_pad] boot_stays_preflight by simp
  then have z: "airbrake_cmd_deg (snd (fc_step fc_boot in_pad)) = Fin 0"
    using airbrake_cmd_iff_deployed [of fc_boot in_pad] by blast
  show ?thesis
    using d a p z by (simp add: flight3_window f_gt_def)
qed

subsection \<open>Baro agreement is kept while it cannot be evaluated\<close>

text \<open>
  Claim C9.  When either altitude sample is invalid or NaN, an \<^verbatim>\<open>fc_step\<close> call
  leaves the \<open>FCF_BARO_AGREE\<close> bit of the flags and the agreement accumulator
  exactly as they were.
\<close>

theorem baro_agree_frame:
  assumes "\<not> bmp1_valid i \<or> \<not> imu1_valid i
           \<or> isnan (bmp1_altitude_m i) \<or> isnan (imu1_altitude_m i)"
  shows "flags (fst (fst (fc_step (c, s) i))) AND FCF_BARO_AGREE = flags c AND FCF_BARO_AGREE
         \<and> agree_acc (snd (fst (fc_step (c, s) i))) = agree_acc s"
proof -
  let ?c1 = "tilt_gate (debounce_sensors c i) i"
  let ?m = "mach_gate (?c1, s) i"
  let ?l = "liftoff_detect (instant_flags (fst ?m) i, snd ?m) i"
  let ?u = "burnout_detect ?l i"
  have t: "fc_tick (c, s) i = (fsm_transition (state (fst ?u)) (fst ?u) (snd ?u) i, snd ?u)"
    by (simp add: fc_tick_unfold Let_def baro_gate_skip [OF assms])
  have "bit (flags (fst ?u)) 3 = bit (flags (fst ?l)) 3"
    by (simp add: bit_flags_burnout)
  also have "\<dots> = bit (flags (instant_flags (fst ?m) i)) 3"
    by (simp add: bit_flags_liftoff)
  also have "\<dots> = bit (flags (fst ?m)) 3"
    by (simp add: bit_flags_instant)
  also have "\<dots> = bit (flags c) 3"
    by (simp add: bit_flags_mach_gate)
  finally have b: "bit (flags (fst (fc_tick (c, s) i))) 3 = bit (flags c) 3"
    by (simp add: t)
  have a: "agree_acc (snd (fc_tick (c, s) i)) = agree_acc s"
    by (simp add: t)
  show ?thesis
    using a b by (simp add: fc_tick_def and_BARO_eq)
qed

theorem baro_agree_frame_witness:
  "\<not> bmp1_valid in_no_bmp
   \<and> flags (fst st_window) AND FCF_BARO_AGREE \<noteq> 0
   \<and> flags (fst (fst (fc_step st_window in_no_bmp))) AND FCF_BARO_AGREE
       = flags (fst st_window) AND FCF_BARO_AGREE
   \<and> agree_acc (snd (fst (fc_step st_window in_no_bmp))) = 3000"
proof -
  have v: "\<not> bmp1_valid in_no_bmp"
    by (simp add: in_no_bmp_def in_pad_def)
  have f: "flags (fst st_window) AND FCF_BARO_AGREE \<noteq> 0"
    by (simp add: st_window_def FCF_BARO_AGREE_def)
  from baro_agree_frame [of in_no_bmp "fst st_window" "snd st_window"] v f
  show ?thesis by (simp add: st_window_def)
qed

subsection \<open>Tilt latch\<close>

lemma fc_tick_latch:
  "tilt_latched (fst (fc_tick (c, s) i)) =
     (tilt_latched c \<or> (f_ge (tilt_deg i) FC_TILT_ABORT_DEG
                         \<and> tilt_bad_acc_ms c + dt_ms i \<ge> FC_TILT_ABORT_DWELL_MS))"
  by (simp add: fc_tick_unfold Let_def latch_tilt_gate)

lemma fc_tick_abort:
  assumes "abortable (state c) \<or> state c = FC_ABORT_LOCKOUT"
      and "tilt_latched (fst (fc_tick (c, s) i))"
    shows "state (fst (fc_tick (c, s) i)) = FC_ABORT_LOCKOUT"
proof -
  let ?c1 = "tilt_gate (debounce_sensors c i) i"
  let ?m = "mach_gate (?c1, s) i"
  let ?b = "baro_agree_gate ?m i"
  let ?l = "liftoff_detect (instant_flags (fst ?b) i, snd ?b) i"
  let ?u = "burnout_detect ?l i"
  have t: "fc_tick (c, s) i = (fsm_transition (state (fst ?u)) (fst ?u) (snd ?u) i, snd ?u)"
    by (simp add: fc_tick_unfold Let_def)
  have l: "tilt_latched (fst ?u)" using assms(2) by (simp add: t)
  have q: "state (fst ?u) = state c" by simp
  show ?thesis
    unfolding t fst_conv
    by (rule state_fsm_latched [OF l]) (use assms(1) q in simp_all)
qed

lemma fc_run_abort:
  "tilt_latched (fst cs) \<Longrightarrow> state (fst cs) = FC_ABORT_LOCKOUT \<Longrightarrow>
   state (fst (fc_run cs is)) = FC_ABORT_LOCKOUT \<and> tilt_latched (fst (fc_run cs is))"
proof (induction "is" arbitrary: cs)
  case Nil
  then show ?case by (simp add: fc_run_def)
next
  case (Cons i "is")
  obtain c s where cs: "cs = (c, s)" by (cases cs)
  have l: "tilt_latched (fst (fc_tick cs i))"
    using Cons.prems(1) by (simp add: cs fc_tick_latch)
  have a: "state (fst (fc_tick cs i)) = FC_ABORT_LOCKOUT"
    unfolding cs by (rule fc_tick_abort) (use Cons.prems l in \<open>simp_all add: cs\<close>)
  show ?case
    using Cons.IH [OF l a] by (simp add: fc_run_def)
qed

text \<open>
  Claim C2, as stated, fails: the tick that sets the latch while the state is
  \<open>FC_RETRACTING\<close> moves to \<open>FC_LOCKED\<close>, and the state stays \<open>FC_LOCKED\<close> on
  the following ticks although the latch is set.
\<close>

theorem tilt_latch_retracting_counterexample:
  "state (fst (fc_run fc_boot (flight3 @ [in_deploy, in_tilted 4100]))) = FC_RETRACTING
   \<and> \<not> tilt_latched (fst (fc_run fc_boot (flight3 @ [in_deploy, in_tilted 4100])))
   \<and> tilt_latched (fst (fc_run fc_boot (flight3 @ [in_deploy, in_tilted 4100, in_tilted 4200])))
   \<and> state (fst (fc_run fc_boot
        (flight3 @ [in_deploy, in_tilted 4100, in_tilted 4200]))) = FC_LOCKED
   \<and> state (fst (fc_run fc_boot
        (flight3 @ [in_deploy, in_tilted 4100, in_tilted 4200, in_tilted 4300]))) = FC_LOCKED
   \<and> state (fst (fc_run fc_boot
        (flight3 @ [in_deploy, in_tilted 4100, in_tilted 4200, in_tilted 4300,
                    in_tilted 4400]))) = FC_LOCKED"
  unfolding fc_run_append flight3_window
  by (simp add: st_window_def fc_eval)

lemma fc_tick_state:
  "state (fst (fc_tick (c, s) i)) =
     state (fsm_transition (state c)
              (fst (burnout_detect (liftoff_detect
                 (instant_flags (fst (baro_agree_gate
                    (mach_gate (tilt_gate (debounce_sensors c i) i, s) i) i)) i,
                  snd (baro_agree_gate (mach_gate (tilt_gate (debounce_sensors c i) i, s) i) i))
                 i) i))
              (snd (burnout_detect (liftoff_detect
                 (instant_flags (fst (baro_agree_gate
                    (mach_gate (tilt_gate (debounce_sensors c i) i, s) i) i)) i,
                  snd (baro_agree_gate (mach_gate (tilt_gate (debounce_sensors c i) i, s) i) i))
                 i) i))
              i)"
  by (simp add: fc_tick_unfold Let_def)

lemma fc_tick_retracting:
  "state c = FC_RETRACTING \<Longrightarrow> state (fst (fc_tick (c, s) i)) = FC_LOCKED"
  by (simp add: fc_tick_state enter_def)

lemma fc_tick_locked:
  "state c = FC_LOCKED \<Longrightarrow> state (fst (fc_tick (c, s) i)) = FC_LOCKED"
  by (simp add: fc_tick_state)

text \<open>
  Claim C2, amended.  A tick leaves the latch set exactly when it was set before
  or the tick's tilt sample is at least \<open>FC_TILT_ABORT_DEG\<close> and brings the tilt
  accumulator to \<open>FC_TILT_ABORT_DWELL_MS\<close>.  If the latch is set at the end of a tick
  that began in \<open>FC_PREFLIGHT\<close>, \<open>FC_BOOST\<close>, \<open>FC_POST_BURN_HOLD\<close>, \<open>FC_WINDOW\<close>,
  \<open>FC_DEPLOYED\<close> or \<open>FC_ABORT_LOCKOUT\<close>, the state at the end of that tick is
  \<open>FC_ABORT_LOCKOUT\<close>, and state and latch stay so on all later ticks.  A tick that
  begins in \<open>FC_RETRACTING\<close> or \<open>FC_LOCKED\<close> ends in \<open>FC_LOCKED\<close>, latch or no latch.
\<close>

theorem tilt_latch_abort:
  "tilt_latched (fst (fst (fc_step (c, s) i))) =
     (tilt_latched c \<or> (f_ge (tilt_deg i) FC_TILT_ABORT_DEG
                         \<and> tilt_bad_acc_ms c + dt_ms i \<ge> FC_TILT_ABORT_DWELL_MS))
   \<and> (tilt_latched (fst (fst (fc_step (c, s) i)))
        \<and> (abortable (state c) \<or> state c = FC_ABORT_LOCKOUT) \<longrightarrow>
      (\<forall>is. state (fst (fc_run (fst (fc_step (c, s) i)) is)) = FC_ABORT_LOCKOUT
            \<and> tilt_latched (fst (fc_run (fst (fc_step (c, s) i)) is))))
   \<and> (state c = FC_RETRACTING \<or> state c = FC_LOCKED \<longrightarrow>
        state (fst (fst (fc_step (c, s) i))) = FC_LOCKED)"
proof (intro conjI impI allI)
  show "tilt_latched (fst (fst (fc_step (c, s) i))) =
     (tilt_latched c \<or> (f_ge (tilt_deg i) FC_TILT_ABORT_DEG
                         \<and> tilt_bad_acc_ms c + dt_ms i \<ge> FC_TILT_ABORT_DWELL_MS))"
    using fc_tick_latch [of c s i] by (simp add: fc_tick_def)
next
  fix "is"
  assume h: "tilt_latched (fst (fst (fc_step (c, s) i)))
        \<and> (abortable (state c) \<or> state c = FC_ABORT_LOCKOUT)"
  then have l: "tilt_latched (fst (fc_tick (c, s) i))" by (simp add: fc_tick_def)
  have a: "state (fst (fc_tick (c, s) i)) = FC_ABORT_LOCKOUT"
    by (rule fc_tick_abort) (use h l in simp_all)
  from fc_run_abort [OF l a, of "is"]
  show "state (fst (fc_run (fst (fc_step (c, s) i)) is)) = FC_ABORT_LOCKOUT"
   and "tilt_latched (fst (fc_run (fst (fc_step (c, s) i)) is))"
    by (simp_all add: fc_tick_def)
next
  assume "state c = FC_RETRACTING \<or> state c = FC_LOCKED"
  then show "state (fst (fst (fc_step (c, s) i))) = FC_LOCKED"
    using fc_tick_retracting [of c s i] fc_tick_locked [of c s i] by (auto simp add: fc_tick_def)
qed

theorem tilt_latch_abort_witness:
  "state (fst st_window) = FC_WINDOW
   \<and> f_ge (tilt_deg (in_tilted 4100)) FC_TILT_ABORT_DEG
   \<and> tilt_latched (fst (fst (fc_step st_window ((in_tilted 4100)\<lparr>dt_ms := 200\<rparr>))))
   \<and> state (fst (fst (fc_step st_window ((in_tilted 4100)\<lparr>dt_ms := 200\<rparr>)))) = FC_ABORT_LOCKOUT
   \<and> state (fst (fc_run (fst (fc_step st_window ((in_tilted 4100)\<lparr>dt_ms := 200\<rparr>)))
                   [in_pad, in_deploy])) = FC_ABORT_LOCKOUT
   \<and> state (fst (fst (fc_step ((fst st_window)\<lparr>state := FC_RETRACTING\<rparr>, snd st_window)
                          in_pad))) = FC_LOCKED"
proof -
  let ?i = "(in_tilted 4100)\<lparr>dt_ms := 200\<rparr>"
  have q: "state (fst st_window) = FC_WINDOW"
    by (simp add: st_window_def)
  have g: "f_ge (tilt_deg ?i) FC_TILT_ABORT_DEG
           \<and> tilt_bad_acc_ms (fst st_window) + dt_ms ?i \<ge> FC_TILT_ABORT_DWELL_MS"
    by (simp add: st_window_def fc_eval)
  have g': "f_ge (tilt_deg (in_tilted 4100)) FC_TILT_ABORT_DEG"
    using g by simp
  from tilt_latch_abort [of "fst st_window" "snd st_window" ?i] g
  have l: "tilt_latched (fst (fst (fc_step st_window ?i)))"
   and r: "abortable (state (fst st_window)) \<longrightarrow>
      (\<forall>is. state (fst (fc_run (fst (fc_step st_window ?i)) is)) = FC_ABORT_LOCKOUT)"
    by simp_all
  have ab: "abortable (state (fst st_window))"
    by (simp add: q abortable_def)
  from r ab have "state (fst (fc_run (fst (fc_step st_window ?i)) [])) = FC_ABORT_LOCKOUT"
    and "state (fst (fc_run (fst (fc_step st_window ?i)) [in_pad, in_deploy])) = FC_ABORT_LOCKOUT"
    by blast+
  moreover
  from tilt_latch_abort [of "(fst st_window)\<lparr>state := FC_RETRACTING\<rparr>" "snd st_window" in_pad]
  have "state (fst (fst (fc_step ((fst st_window)\<lparr>state := FC_RETRACTING\<rparr>, snd st_window)
                          in_pad))) = FC_LOCKED"
    by simp
  ultimately show ?thesis using q g' l by (simp add: fc_run_def)
qed

subsection \<open>Mach gate\<close>

lemma isnan_fc_mach: "isnan (fc_mach i) = isnan (mach_vz_in i)"
  by (cases "mach_vz_in i") (simp_all add: fc_mach_def Let_def fc_consts)

lemma mach_gate_acc:
  "mach_ok_acc_ms (fst (mach_gate (c, s) i)) = mach_dwell_step (mach_ok_acc_ms c) i"
  by (simp add: mach_gate_def mach_dwell_step_def isnan_fc_mach Let_def split: prod.splits)

lemma mach_gate_state:
  "mach_ok_state (snd (mach_gate (c, s) i)) =
     (if isnan (fc_mach i) then mach_ok_state s
      else if f_lt (fc_mach i) FC_MACH_MAX_FOR_DEPLOY
        then (mach_ok_state s \<or> mach_ok_acc_ms c + dt_ms i \<ge> FC_MACH_DWELL_MS)
      else if f_gt (fc_mach i) (f_add FC_MACH_MAX_FOR_DEPLOY FC_MACH_HYST) then False
      else mach_ok_state s)"
  by (auto simp add: mach_gate_def isnan_fc_mach Let_def split: prod.splits)

lemma mach_gate_bit:
  "bit (flags (fst (mach_gate (c, s) i))) 4 =
     (if isnan (fc_mach i) then bit (flags c) 4 else mach_ok_state (snd (mach_gate (c, s) i)))"
  by (simp add: mach_gate_def isnan_fc_mach Let_def bit_flag_ops split: prod.splits)

lemma fc_tick_mach_acc:
  "mach_ok_acc_ms (fst (fc_tick (c, s) i)) = mach_dwell_step (mach_ok_acc_ms c) i"
proof -
  let ?c1 = "tilt_gate (debounce_sensors c i) i"
  have "mach_ok_acc_ms (fst (fc_tick (c, s) i)) = mach_ok_acc_ms (fst (mach_gate (?c1, s) i))"
    by (simp add: fc_tick_unfold Let_def)
  then show ?thesis by (simp add: mach_gate_acc)
qed

lemma fc_tick_mach_state:
  "mach_ok_state (snd (fc_tick (c, s) i)) =
     mach_ok_state (snd (mach_gate (tilt_gate (debounce_sensors c i) i, s) i))"
  by (simp add: fc_tick_unfold Let_def)

lemma fc_tick_mach_bit:
  "bit (flags (fst (fc_tick (c, s) i))) 4 =
     bit (flags (fst (mach_gate (tilt_gate (debounce_sensors c i) i, s) i))) 4"
  by (simp add: fc_tick_unfold Let_def bit_flags_burnout bit_flags_liftoff bit_flags_instant
      bit_flags_baro)

lemma fc_tick_mach_state':
  "mach_ok_state (snd (fc_tick (c, s) i)) =
     (if isnan (fc_mach i) then mach_ok_state s
      else if f_lt (fc_mach i) FC_MACH_MAX_FOR_DEPLOY
        then (mach_ok_state s \<or> mach_ok_acc_ms c + dt_ms i \<ge> FC_MACH_DWELL_MS)
      else if f_gt (fc_mach i) (f_add FC_MACH_MAX_FOR_DEPLOY FC_MACH_HYST) then False
      else mach_ok_state s)"
  by (simp add: fc_tick_mach_state mach_gate_state)

lemma fc_tick_mach_bit':
  "bit (flags (fst (fc_tick (c, s) i))) 4 =
     (if isnan (fc_mach i) then bit (flags c) 4 else mach_ok_state (snd (fc_tick (c, s) i)))"
  by (simp add: fc_tick_mach_bit fc_tick_mach_state mach_gate_bit)

lemma fc_run_snoc: "fc_run cs (is @ [i]) = fc_tick (fc_run cs is) i"
  by (simp add: fc_run_def)

lemma mach_dwell_snoc: "mach_dwell (is @ [i]) = mach_dwell_step (mach_dwell is) i"
  by (simp add: mach_dwell_def)

lemma boot_mach_inv:
  "mach_ok_acc_ms (fst (fc_run fc_boot is)) = mach_dwell is
   \<and> bit (flags (fst (fc_run fc_boot is))) 4 = mach_ok_state (snd (fc_run fc_boot is))"
proof (induction "is" rule: rev_induct)
  case Nil
  show ?case
    by (simp add: fc_run_def fc_boot_def fc_init_def statics_boot_def mach_dwell_def)
next
  case (snoc i "is")
  obtain c s where cs: "fc_run fc_boot is = (c, s)" by (cases "fc_run fc_boot is")
  from snoc cs have a: "mach_ok_acc_ms c = mach_dwell is" and b: "bit (flags c) 4 = mach_ok_state s"
    by simp_all
  show ?case
    using a b
    by (simp add: fc_run_snoc cs mach_dwell_snoc fc_tick_mach_acc fc_tick_mach_bit'
        fc_tick_mach_state')
qed

lemmas mach_eval = in_mach_def mach_run_def mach_dwell_def mach_dwell_step_def has_flag_def

text \<open>
  Claim C6, as stated, fails.  After 200 ms below the ON threshold the Mach proxy
  spends a 20 ms sample between the two thresholds (not below 0.50); the next
  sample, 100 ms long and below 0.50, turns \<open>FCF_MACH_OK\<close> on, although the proxy
  has been below 0.50 without interruption for that one sample only.
\<close>

theorem mach_ok_dwell_counterexample:
  "\<not> has_flag (flags (fst (fc_run fc_boot mach_run))) FCF_MACH_OK
   \<and> has_flag (flags (fst (fc_run fc_boot (mach_run @ [in_mach 100 320 (Fin 0)])))) FCF_MACH_OK
   \<and> \<not> f_lt (fc_mach (in_mach 20 220 (Fin 132))) FC_MACH_MAX_FOR_DEPLOY
   \<and> dt_ms (in_mach 100 320 (Fin 0)) = 100"
  by (simp add: mach_eval fc_eval)

text \<open>
  Claim C6, amended.  In a run from power-on, \<open>FCF_MACH_OK\<close> turns on only at a
  sample whose Mach proxy is below \<open>FC_MACH_MAX_FOR_DEPLOY\<close> and at which the
  accumulated time \<open>mach_dwell\<close> reaches \<open>FC_MACH_DWELL_MS\<close>: the sum (modulo
  \<open>2^32\<close>) of the periods of the samples below the ON threshold since the last
  sample above the OFF threshold, samples between the thresholds and NaN samples
  neither adding nor clearing.  From any state, a sample above
  \<open>FC_MACH_MAX_FOR_DEPLOY + FC_MACH_HYST\<close> leaves the flag off.  The accumulator
  of the context is that sum, and the reported Mach is the proxy.
\<close>

theorem mach_ok_dwell_and_off:
  "(\<not> has_flag (flags (fst (fc_run fc_boot is))) FCF_MACH_OK
      \<and> has_flag (flags (fst (fc_run fc_boot (is @ [i])))) FCF_MACH_OK
     \<longrightarrow> f_lt (fc_mach i) FC_MACH_MAX_FOR_DEPLOY \<and> mach_dwell (is @ [i]) \<ge> FC_MACH_DWELL_MS)
   \<and> (f_gt (fc_mach i) (f_add FC_MACH_MAX_FOR_DEPLOY FC_MACH_HYST)
     \<longrightarrow> \<not> has_flag (flags (fst (fst (fc_step cs i)))) FCF_MACH_OK)
   \<and> mach_ok_acc_ms (fst (fc_run fc_boot is)) = mach_dwell is
   \<and> mach_cons (snd (fc_step cs i)) = fc_mach i"
proof (intro conjI impI)
  assume h: "\<not> has_flag (flags (fst (fc_run fc_boot is))) FCF_MACH_OK
      \<and> has_flag (flags (fst (fc_run fc_boot (is @ [i])))) FCF_MACH_OK"
  obtain c s where cs: "fc_run fc_boot is = (c, s)" by (cases "fc_run fc_boot is")
  from boot_mach_inv [of "is"] cs
  have a: "mach_ok_acc_ms c = mach_dwell is" and b: "bit (flags c) 4 = mach_ok_state s"
    by simp_all
  from h cs have off: "\<not> bit (flags c) 4" and on: "bit (flags (fst (fc_tick (c, s) i))) 4"
    by (simp_all add: has_flag_MACH fc_run_snoc)
  from on off b have lt: "f_lt (fc_mach i) FC_MACH_MAX_FOR_DEPLOY"
    by (simp add: fc_tick_mach_bit' fc_tick_mach_state' split: if_splits)
  then have nn: "\<not> isnan (fc_mach i)" by (cases "fc_mach i") simp_all
  from on off b lt nn have "mach_ok_acc_ms c + dt_ms i \<ge> FC_MACH_DWELL_MS"
    by (simp add: fc_tick_mach_bit' fc_tick_mach_state')
  with lt nn a show "f_lt (fc_mach i) FC_MACH_MAX_FOR_DEPLOY"
    and "mach_dwell (is @ [i]) \<ge> FC_MACH_DWELL_MS"
    by (simp_all add: mach_dwell_snoc mach_dwell_step_def)
next
  assume g: "f_gt (fc_mach i) (f_add FC_MACH_MAX_FOR_DEPLOY FC_MACH_HYST)"
  obtain c s where cs: "cs = (c, s)" by (cases cs)
  from g have nn: "\<not> isnan (fc_mach i)" by (cases "fc_mach i") (simp_all add: f_gt_def)
  from g have nl: "\<not> f_lt (fc_mach i) FC_MACH_MAX_FOR_DEPLOY"
    by (cases "fc_mach i") (simp_all add: f_gt_def fc_consts)
  have "\<not> bit (flags (fst (fc_tick (c, s) i))) 4"
    using g nn nl by (simp add: fc_tick_mach_bit' fc_tick_mach_state')
  then show "\<not> has_flag (flags (fst (fst (fc_step cs i)))) FCF_MACH_OK"
    by (simp add: has_flag_MACH cs fc_tick_def)
next
  show "mach_ok_acc_ms (fst (fc_run fc_boot is)) = mach_dwell is"
    using boot_mach_inv [of "is"] by simp
next
  show "mach_cons (snd (fc_step cs i)) = fc_mach i"
    by (simp add: fc_step_def update_flags_def Let_def split: prod.splits)
qed

theorem mach_ok_dwell_and_off_witness:
  "\<not> has_flag (flags (fst (fc_run fc_boot mach_run))) FCF_MACH_OK
   \<and> has_flag (flags (fst (fc_run fc_boot (mach_run @ [in_mach 100 320 (Fin 0)])))) FCF_MACH_OK
   \<and> mach_dwell (mach_run @ [in_mach 100 320 (Fin 0)]) = 300
   \<and> f_gt (fc_mach (in_mach 20 340 (Fin 200))) (Fin 0.52)
   \<and> \<not> has_flag (flags (fst (fst (fc_step (fc_run fc_boot (mach_run @ [in_mach 100 320 (Fin 0)]))
                 (in_mach 20 340 (Fin 200)))))) FCF_MACH_OK"
proof -
  let ?on = "in_mach 100 320 (Fin 0)"
  let ?hi = "in_mach 20 340 (Fin 200)"
  have h: "\<not> has_flag (flags (fst (fc_run fc_boot mach_run))) FCF_MACH_OK
   \<and> has_flag (flags (fst (fc_run fc_boot (mach_run @ [?on])))) FCF_MACH_OK"
    by (simp add: mach_eval fc_eval)
  have d: "mach_dwell (mach_run @ [?on]) = 300"
    by (simp add: mach_eval fc_eval)
  have g: "f_gt (fc_mach ?hi) (f_add FC_MACH_MAX_FOR_DEPLOY FC_MACH_HYST)"
    by (simp add: mach_eval fc_eval)
  from mach_ok_dwell_and_off [of mach_run ?hi "fc_run fc_boot (mach_run @ [?on])"] g
  have off: "\<not> has_flag (flags (fst (fst (fc_step (fc_run fc_boot (mach_run @ [?on])) ?hi))))
           FCF_MACH_OK"
    by blast
  from mach_ok_dwell_and_off [of mach_run ?on fc_boot] h
  have "mach_dwell (mach_run @ [?on]) \<ge> FC_MACH_DWELL_MS"
    by blast
  moreover from g have "f_gt (fc_mach ?hi) (Fin 0.52)"
    by (simp add: fc_consts)
  ultimately show ?thesis using h d off by simp
qed

section \<open>Properties of the flight controller task\<close>

lemma fc_task_iter_alt:
  "fc_task_iter t rec now =
     (let d = now - prev_ms t;
          d = (if d > 1000 then 1000 else d);
          d = (if d < 1 then 1 else d);
          r = fc_step (s_ctx t, fc_statics t) (fc_task_inputs rec d now)
      in t\<lparr>prev_ms := now, s_ctx := fst (fst r), fc_statics := snd (fst r),
           s_stat := \<lparr>stamp_ms = now, st_state = out_state (snd r),
                      st_flags = out_flags (snd r), st_mach_cons = mach_cons (snd r),
                      st_tilt_deg = out_tilt_deg (snd r),
                      st_t_since_launch_s = t_since_launch_s (snd r),
                      st_t_to_apogee_s = t_to_apogee_s (snd r),
                      st_airbrake_cmd_deg = airbrake_cmd_deg (snd r)\<rparr>\<rparr>)"
  by (simp add: fc_task_iter_def Let_def split: prod.splits)

lemma boost_step:
  "fc_step (fc_init, statics_boot)
     (fc_task_inputs (rec_pad\<lparr>fused_az_imu1_mps2 := Fin 40\<rparr>) 1000 1000)
   = ((s_ctx task_boost_val, fc_statics task_boost_val),
      \<lparr>out_state = FC_BOOST, out_flags = 184, airbrake_cmd_deg = Fin 0,
       t_since_launch_s = Fin 0, t_to_apogee_s = Fin 0, mach_cons = Fin 0,
       out_tilt_deg = Fin 0\<rparr>)"
  by (simp add: task_boost_val_def rec_pad_def fc_task_inputs_def fc_eval)

lemma task_boost_eval: "task_boost = task_boost_val"
  by (simp add: task_boost_def fc_task_iter_alt fc_task_entry_def fc_task_boot_def boost_step
      Let_def task_boost_val_def)

lemma reset_step:
  "fc_step (FcCoreCtx_zero, fc_statics task_boost_val) (fc_task_inputs rec_pad 20 1020)
   = ((s_ctx task_reset_val, fc_statics task_reset_val),
      \<lparr>out_state = FC_SAFE, out_flags = 56, airbrake_cmd_deg = Fin 0,
       t_since_launch_s = Fin 0, t_to_apogee_s = Fin 0, mach_cons = Fin 0,
       out_tilt_deg = Fin 0\<rparr>)"
  by (simp add: task_boost_val_def task_reset_val_def FcCoreCtx_zero_def rec_pad_def
      fc_task_inputs_def fc_eval)

lemma task_reset_eval: "fc_task_iter (fcSoftReset task_boost) rec_pad 1020 = task_reset_val"
proof -
  have "fc_task_iter (fcSoftReset task_boost_val) rec_pad 1020 = task_reset_val"
    by (simp add: fc_task_iter_alt fcSoftReset_def Let_def
        reset_step [unfolded task_boost_val_def, simplified]
        task_boost_val_def task_reset_val_def)
  then show ?thesis by (simp only: task_boost_eval)
qed

text \<open>
  Claim C5 against the code.  The task has seen liftoff and is in \<open>FC_BOOST\<close>.
  \<^verbatim>\<open>fcSoftReset\<close> zeroes the context and clears \<^verbatim>\<open>s_core_inited\<close>, but the
  liftoff latch, the Mach gate state and the agreement accumulator are statics of
  the helpers and keep their values; and since \<^verbatim>\<open>fc_init\<close> is called only before
  the loop, the next iteration runs on the zeroed context: the state is \<open>FC_SAFE\<close>,
  not \<open>FC_PREFLIGHT\<close>, the core stays uninitialised, and the liftoff latch is
  still set while the flag \<open>FCF_LIFTOFF_DET\<close> is clear.
\<close>

theorem soft_reset_not_reinitialised:
  "state (s_ctx task_boost) = FC_BOOST
   \<and> liftoff_latched (fc_statics task_boost)
   \<and> mach_ok_state (fc_statics task_boost)
   \<and> agree_acc (fc_statics task_boost) = 1000
   \<and> liftoff_latched (fc_statics (fcSoftReset task_boost))
   \<and> mach_ok_state (fc_statics (fcSoftReset task_boost))
   \<and> agree_acc (fc_statics (fcSoftReset task_boost)) = 1000
   \<and> \<not> s_core_inited (fcSoftReset task_boost)
   \<and> state (s_ctx (fc_task_iter (fcSoftReset task_boost) rec_pad 1020)) = FC_SAFE
   \<and> st_state (s_stat (fc_task_iter (fcSoftReset task_boost) rec_pad 1020)) = FC_SAFE
   \<and> \<not> s_core_inited (fc_task_iter (fcSoftReset task_boost) rec_pad 1020)
   \<and> liftoff_latched (fc_statics (fc_task_iter (fcSoftReset task_boost) rec_pad 1020))
   \<and> \<not> has_flag (st_flags (s_stat (fc_task_iter (fcSoftReset task_boost) rec_pad 1020)))
          FCF_LIFTOFF_DET"
  unfolding task_reset_eval
  by (simp add: task_boost_eval fcSoftReset_def task_boost_val_def task_reset_val_def
      has_flag_def FCF_LIFTOFF_DET_def)

section \<open>Properties of the fusion service\<close>

subsection \<open>Evaluating an iteration stage by stage\<close>

lemma fusion_tick_stages:
  assumes "s0 = (if s_reset_req s then fst (fusion_reset s (fi_reset_now i)) else s)"
      and "bmp_alt = (if fi_vb i then fi_b_altitude_m i else NaN)"
      and "imu_alt = (if fi_vi i then fi_u1_altitude_m i else NaN)"
      and "agl_arm s0 (fi_now i) bmp_alt imu_alt = s1"
      and "agl_values s1 bmp_alt imu_alt = (agl_bmp1, agl_imu1, agl_fused)"
      and "vz_baro s1 (fi_now i) agl_fused = (s2, vz, dt_s)"
      and "az_earth s2 i dt_s = (s3, az)"
      and "sos_refs s3 i = s4"
  shows "fusion_tick s i =
     (s4, \<lparr>fa_stamp_ms = fi_now i, fa_bmp1_alt_m = bmp_alt, fa_imu1_alt_m = imu_alt,
           fa_agl_bmp1_m = agl_bmp1, fa_agl_imu1_m = agl_imu1, fa_agl_fused_m = agl_fused,
           fa_agl_ready = s_agl_ready s4, fa_vz_mps = vz, fa_vz_acc_mps = vz_acc s4,
           fa_vz_fused_mps = vz_fuse vz (vz_acc s4), fa_az_imu1_mps2 = az,
           fa_sos_ground_mps = sos_ground_mps s4, fa_sos_10kft_mps = sos_10kft_mps s4,
           fa_sos_min_mps = sos_min_mps s4,
           fa_mach_cons = mach_conservative s4 (vz_fuse vz (vz_acc s4)),
           fa_t_apogee_s = fst (apogee_predict s4 agl_fused vz),
           fa_apogee_agl_m = snd (apogee_predict s4 agl_fused vz)\<rparr>)"
  unfolding fusion_tick_def assms(1-3) [symmetric] Let_def assms(4-8) prod.case
  by (simp add: case_prod_beta)

lemma fusion_tick_state:
  "fst (fusion_tick s i) =
     (let s0 = (if s_reset_req s then fst (fusion_reset s (fi_reset_now i)) else s);
          bmp_alt = (if fi_vb i then fi_b_altitude_m i else NaN);
          imu_alt = (if fi_vi i then fi_u1_altitude_m i else NaN);
          s1 = agl_arm s0 (fi_now i) bmp_alt imu_alt;
          v = vz_baro s1 (fi_now i) (snd (snd (agl_values s1 bmp_alt imu_alt)));
          a = az_earth (fst v) i (snd (snd v))
      in sos_refs (fst a) i)"
  by (simp add: fusion_tick_def Let_def split: prod.splits)

lemma rotate_identity:
  "rotate_vec_by_quat (Fin 1, Fin 0, Fin 0, Fin 0) (Fin a, Fin b, Fin c) = (Fin a, Fin b, Fin c)"
  by (simp add: rotate_vec_by_quat_def)

lemma blind1_state: "fst (fusion_tick fusion_boot (fin_blind 1)) = fus_armed"
proof -
  let ?i = "fin_blind 1"
  have a: "agl_arm fusion_boot (fi_now ?i) NaN NaN = fus_armed"
    by (simp add: Let_def word_le_nat_alt agl_arm_def fus_armed_def fusion_boot_def
        fin_blind_def ZERO_AGL_AFTER_MS_def)
  have b: "agl_values fus_armed NaN NaN = (NaN, NaN, NaN)"
    by (simp add: Let_def agl_values_def fus_armed_def fusion_boot_def)
  have c: "vz_baro fus_armed (fi_now ?i) NaN = (fus_armed, NaN, NaN)"
    by (simp add: Let_def vz_baro_def fus_armed_def fusion_boot_def)
  have d: "az_earth fus_armed ?i NaN = (fus_armed, NaN)"
    by (simp add: az_earth_def fin_blind_def)
  have e: "sos_refs fus_armed ?i = fus_armed"
    by (simp add: sos_refs_def fin_blind_def)
  have p1: "fusion_boot = (if s_reset_req fusion_boot then fst (fusion_reset fusion_boot (fi_reset_now ?i)) else fusion_boot)"
    by (simp add: fusion_boot_def)
  have p2: "NaN = (if fi_vb ?i then fi_b_altitude_m ?i else NaN)"
    by (simp add: fin_blind_def)
  have p3: "NaN = (if fi_vi ?i then fi_u1_altitude_m ?i else NaN)"
    by (simp add: fin_blind_def)
  show ?thesis
    by (simp add: fusion_tick_stages [OF p1 p2 p3 a b c d e])
qed

lemma blind2:
  "fusion_tick fus_armed (fin_blind 10001) =
     (fus_armed\<lparr>s_agl_ready := True\<rparr>,
      \<lparr>fa_stamp_ms = 10001, fa_bmp1_alt_m = NaN, fa_imu1_alt_m = NaN,
       fa_agl_bmp1_m = NaN, fa_agl_imu1_m = NaN, fa_agl_fused_m = NaN,
       fa_agl_ready = True, fa_vz_mps = NaN, fa_vz_acc_mps = Fin 0,
       fa_vz_fused_mps = Fin 0, fa_az_imu1_mps2 = NaN,
       fa_sos_ground_mps = NaN, fa_sos_10kft_mps = NaN, fa_sos_min_mps = Fin 300,
       fa_mach_cons = NaN, fa_t_apogee_s = NaN, fa_apogee_agl_m = NaN\<rparr>)"
proof -
  let ?i = "fin_blind 10001"
  let ?s = "fus_armed\<lparr>s_agl_ready := True\<rparr>"
  have a: "agl_arm fus_armed (fi_now ?i) NaN NaN = ?s"
    by (simp add: Let_def agl_arm_def fus_armed_def fusion_boot_def fin_blind_def)
  have b: "agl_values ?s NaN NaN = (NaN, NaN, NaN)"
    by (simp add: Let_def agl_values_def fus_armed_def fusion_boot_def)
  have c: "vz_baro ?s (fi_now ?i) NaN = (?s, NaN, NaN)"
    by (simp add: Let_def vz_baro_def fus_armed_def fusion_boot_def)
  have d: "az_earth ?s ?i NaN = (?s, NaN)"
    by (simp add: az_earth_def fin_blind_def)
  have e: "sos_refs ?s ?i = ?s"
    by (simp add: sos_refs_def fin_blind_def)
  have p1: "fus_armed = (if s_reset_req fus_armed then fst (fusion_reset fus_armed (fi_reset_now ?i)) else fus_armed)"
    by (simp add: fus_armed_def fusion_boot_def)
  have p2: "NaN = (if fi_vb ?i then fi_b_altitude_m ?i else NaN)"
    by (simp add: fin_blind_def)
  have p3: "NaN = (if fi_vi ?i then fi_u1_altitude_m ?i else NaN)"
    by (simp add: fin_blind_def)
  have n: "fi_now ?i = 10001"
    by (simp add: fin_blind_def)
  show ?thesis
    unfolding fusion_tick_stages [OF p1 p2 p3 a b c d e] n
    by (simp add: fus_armed_def fusion_boot_def vz_fuse_def mach_conservative_def
        apogee_predict_def SOS_MIN_FLOOR_MPS_def)
qed

lemma tick1_state: "fst (fusion_tick fusion_boot (fin_imu 1 (Fin 100) (Fin 1))) = fus_armed"
proof -
  let ?i = "fin_imu 1 (Fin 100) (Fin 1)"
  have a: "agl_arm fusion_boot (fi_now ?i) NaN (Fin 100) = fus_armed"
    by (simp add: Let_def word_le_nat_alt agl_arm_def fus_armed_def fusion_boot_def fin_imu_def ZERO_AGL_AFTER_MS_def)
  have b: "agl_values fus_armed NaN (Fin 100) = (NaN, NaN, NaN)"
    by (simp add: Let_def agl_values_def fus_armed_def fusion_boot_def)
  have c: "vz_baro fus_armed (fi_now ?i) NaN = (fus_armed, NaN, NaN)"
    by (simp add: Let_def vz_baro_def fus_armed_def fusion_boot_def)
  have d: "az_earth fus_armed ?i NaN = (fus_armed, Fin 0)"
    by (simp add: Let_def az_earth_def fin_imu_def rotate_identity G0_def fus_armed_def fusion_boot_def)
  have e: "sos_refs fus_armed ?i = fus_armed"
    by (simp add: Let_def sos_refs_def fin_imu_def)
  have p1: "fusion_boot = (if s_reset_req fusion_boot then fst (fusion_reset fusion_boot (fi_reset_now ?i)) else fusion_boot)"
    by (simp add: fusion_boot_def)
  have p2: "NaN = (if fi_vb ?i then fi_b_altitude_m ?i else NaN)"
    by (simp add: fin_imu_def)
  have p3: "Fin 100 = (if fi_vi ?i then fi_u1_altitude_m ?i else NaN)"
    by (simp add: fin_imu_def)
  show ?thesis
    by (simp add: fusion_tick_stages [OF p1 p2 p3 a b c d e])
qed

lemma tick2_state: "fst (fusion_tick fus_armed (fin_imu 10001 (Fin 100) (Fin 1))) = fus_ready"
proof -
  let ?i = "fin_imu 10001 (Fin 100) (Fin 1)"
  let ?s1 = "fus_armed\<lparr>s_agl_ready := True, s_base_imu1_m := Fin 100\<rparr>"
  have a: "agl_arm fus_armed (fi_now ?i) NaN (Fin 100) = ?s1"
    by (simp add: Let_def word_le_nat_alt agl_arm_def fus_armed_def fusion_boot_def fin_imu_def)
  have b: "agl_values ?s1 NaN (Fin 100) = (NaN, Fin 0, Fin 0)"
    by (simp add: Let_def agl_values_def fus_armed_def fusion_boot_def)
  have c: "vz_baro ?s1 (fi_now ?i) (Fin 0) = (fus_ready, NaN, NaN)"
    by (simp add: Let_def vz_baro_def fus_armed_def fusion_boot_def fus_ready_def fin_imu_def
        SOS_MIN_FLOOR_MPS_def)
  have d: "az_earth fus_ready ?i NaN = (fus_ready, Fin 0)"
    by (simp add: Let_def az_earth_def fin_imu_def rotate_identity G0_def fus_ready_def
        FUSION_VZ_MAX_DT_MS_def)
  have e: "sos_refs fus_ready ?i = fus_ready"
    by (simp add: Let_def sos_refs_def fin_imu_def)
  have p1: "fus_armed = (if s_reset_req fus_armed then fst (fusion_reset fus_armed (fi_reset_now ?i)) else fus_armed)"
    by (simp add: fus_armed_def fusion_boot_def)
  have p2: "NaN = (if fi_vb ?i then fi_b_altitude_m ?i else NaN)"
    by (simp add: fin_imu_def)
  have p3: "Fin 100 = (if fi_vi ?i then fi_u1_altitude_m ?i else NaN)"
    by (simp add: fin_imu_def)
  show ?thesis
    by (simp add: fusion_tick_stages [OF p1 p2 p3 a b c d e])
qed

lemma climb_run:
  "fusion_run fusion_boot [fin_imu 1 (Fin 100) (Fin 1), fin_imu 10001 (Fin 100) (Fin 1)]
     = fus_ready"
  by (simp add: tick1_state tick2_state)

lemma tick3:
  "fusion_tick fus_ready (fin_imu 10021 (Fin 100.01) (Fin 0.3)) =
     (fus_climb,
      \<lparr>fa_stamp_ms = 10021, fa_bmp1_alt_m = NaN, fa_imu1_alt_m = Fin 100.01,
       fa_agl_bmp1_m = NaN, fa_agl_imu1_m = Fin 0.01, fa_agl_fused_m = Fin 0.01,
       fa_agl_ready = True, fa_vz_mps = Fin 0.5, fa_vz_acc_mps = Fin (- 0.1372931),
       fa_vz_fused_mps = Fin (- 0.00983448), fa_az_imu1_mps2 = Fin (- 6.864655),
       fa_sos_ground_mps = NaN, fa_sos_10kft_mps = NaN, fa_sos_min_mps = Fin 300,
       fa_mach_cons = NaN, fa_t_apogee_s = Fin (0.35 / 9.80665),
       fa_apogee_agl_m = Fin (0.01 + 0.2 / 19.6133)\<rparr>)"
proof -
  let ?i = "fin_imu 10021 (Fin 100.01) (Fin 0.3)"
  let ?s2 = "fus_ready\<lparr>prev_alt := Fin 0.01, fus_prev_ms := 10021, vz_filt := Fin 0.5\<rparr>"
  have a: "agl_arm fus_ready (fi_now ?i) NaN (Fin 100.01) = fus_ready"
    by (simp add: Let_def word_le_nat_alt agl_arm_def fus_ready_def fin_imu_def)
  have b: "agl_values fus_ready NaN (Fin 100.01) = (NaN, Fin 0.01, Fin 0.01)"
    by (simp add: Let_def agl_values_def fus_ready_def)
  have c: "vz_baro fus_ready (fi_now ?i) (Fin 0.01) = (?s2, Fin 0.5, Fin 0.02)"
    by (simp add: Let_def vz_baro_def fus_ready_def fin_imu_def u32_to_f_def f_gt_def
        FUSION_VZ_MAX_DT_MS_def FUSION_VZ_ALPHA_def)
  have d: "az_earth ?s2 ?i (Fin 0.02) = (fus_climb, Fin (- 6.864655))"
    by (simp add: Let_def az_earth_def fin_imu_def rotate_identity G0_def fus_ready_def fus_climb_def)
  have e: "sos_refs fus_climb ?i = fus_climb"
    by (simp add: Let_def sos_refs_def fin_imu_def)
  have p1: "fus_ready = (if s_reset_req fus_ready then fst (fusion_reset fus_ready (fi_reset_now ?i)) else fus_ready)"
    by (simp add: fus_ready_def)
  have p2: "NaN = (if fi_vb ?i then fi_b_altitude_m ?i else NaN)"
    by (simp add: fin_imu_def)
  have p3: "Fin 100.01 = (if fi_vi ?i then fi_u1_altitude_m ?i else NaN)"
    by (simp add: fin_imu_def)
  have n: "fi_now ?i = 10021"
    by (simp add: fin_imu_def)
  show ?thesis
    unfolding fusion_tick_stages [OF p1 p2 p3 a b c d e] n
    by (simp add: fus_ready_def fus_climb_def vz_fuse_def
          mach_conservative_def apogee_predict_def f_gt_def FUSION_VZ_FUSE_BETA_def
          FUSION_SAFE_TAPX_FACTOR_def FUSION_SAFE_ZAPX_FACTOR_def G0_def)
qed

lemma tick3_down:
  "snd (fusion_tick fus_ready (fin_imu 10021 (Fin 99.99) (Fin 1))) =
      \<lparr>fa_stamp_ms = 10021, fa_bmp1_alt_m = NaN, fa_imu1_alt_m = Fin 99.99,
       fa_agl_bmp1_m = NaN, fa_agl_imu1_m = Fin (- 0.01), fa_agl_fused_m = Fin (- 0.01),
       fa_agl_ready = True, fa_vz_mps = Fin (- 0.5), fa_vz_acc_mps = Fin 0,
       fa_vz_fused_mps = Fin (- 0.1), fa_az_imu1_mps2 = Fin 0,
       fa_sos_ground_mps = NaN, fa_sos_10kft_mps = NaN, fa_sos_min_mps = Fin 300,
       fa_mach_cons = NaN, fa_t_apogee_s = Fin 0,
       fa_apogee_agl_m = Fin (- 0.01)\<rparr>"
proof -
  let ?i = "fin_imu 10021 (Fin 99.99) (Fin 1)"
  let ?s2 = "fus_ready\<lparr>prev_alt := Fin (- 0.01), fus_prev_ms := 10021, vz_filt := Fin (- 0.5)\<rparr>"
  have a: "agl_arm fus_ready (fi_now ?i) NaN (Fin 99.99) = fus_ready"
    by (simp add: Let_def agl_arm_def fus_ready_def fin_imu_def)
  have b: "agl_values fus_ready NaN (Fin 99.99) = (NaN, Fin (- 0.01), Fin (- 0.01))"
    by (simp add: Let_def agl_values_def fus_ready_def)
  have c: "vz_baro fus_ready (fi_now ?i) (Fin (- 0.01)) = (?s2, Fin (- 0.5), Fin 0.02)"
    by (simp add: Let_def vz_baro_def fus_ready_def fin_imu_def u32_to_f_def f_gt_def
        FUSION_VZ_MAX_DT_MS_def FUSION_VZ_ALPHA_def)
  have d: "az_earth ?s2 ?i (Fin 0.02) = (?s2, Fin 0)"
    by (simp add: Let_def az_earth_def fin_imu_def rotate_identity G0_def fus_ready_def)
  have e: "sos_refs ?s2 ?i = ?s2"
    by (simp add: sos_refs_def fin_imu_def)
  have p1: "fus_ready = (if s_reset_req fus_ready then fst (fusion_reset fus_ready (fi_reset_now ?i)) else fus_ready)"
    by (simp add: fus_ready_def)
  have p2: "NaN = (if fi_vb ?i then fi_b_altitude_m ?i else NaN)"
    by (simp add: fin_imu_def)
  have p3: "Fin 99.99 = (if fi_vi ?i then fi_u1_altitude_m ?i else NaN)"
    by (simp add: fin_imu_def)
  have n: "fi_now ?i = 10021"
    by (simp add: fin_imu_def)
  show ?thesis
    unfolding fusion_tick_stages [OF p1 p2 p3 a b c d e] n
    by (simp add: fus_ready_def vz_fuse_def
          mach_conservative_def apogee_predict_def f_gt_def FUSION_VZ_FUSE_BETA_def)
qed

subsection \<open>Arming of the AGL baseline\<close>

lemma agl_arm_ready:
  "s_agl_ready (agl_arm s now b u) =
     (s_agl_ready s \<or> now \<ge> (if s_agl_arm_ms s = 0 then now + ZERO_AGL_AFTER_MS else s_agl_arm_ms s))"
  by (simp add: Let_def word_le_nat_alt agl_arm_def Let_def)

lemma ready_vz_baro [simp]: "s_agl_ready (fst (vz_baro s now a)) = s_agl_ready s"
  by (simp add: Let_def vz_baro_def Let_def split: prod.splits)

lemma ready_az_earth [simp]: "s_agl_ready (fst (az_earth s i d)) = s_agl_ready s"
  by (simp add: Let_def az_earth_def Let_def split: prod.splits)

lemma ready_sos_refs [simp]: "s_agl_ready (sos_refs s i) = s_agl_ready s"
  by (simp add: sos_refs_def Let_def)

lemma req_agl_arm [simp]: "s_reset_req (agl_arm s now b u) = s_reset_req s"
  by (simp add: Let_def word_le_nat_alt agl_arm_def Let_def)

lemma req_vz_baro [simp]: "s_reset_req (fst (vz_baro s now a)) = s_reset_req s"
  by (simp add: Let_def vz_baro_def Let_def split: prod.splits)

lemma req_az_earth [simp]: "s_reset_req (fst (az_earth s i d)) = s_reset_req s"
  by (simp add: Let_def az_earth_def Let_def split: prod.splits)

lemma req_sos_refs [simp]: "s_reset_req (sos_refs s i) = s_reset_req s"
  by (simp add: sos_refs_def Let_def)

lemma arm_vz_baro [simp]: "s_agl_arm_ms (fst (vz_baro s now a)) = s_agl_arm_ms s"
  by (simp add: Let_def vz_baro_def Let_def split: prod.splits)

lemma arm_az_earth [simp]: "s_agl_arm_ms (fst (az_earth s i d)) = s_agl_arm_ms s"
  by (simp add: Let_def az_earth_def Let_def split: prod.splits)

lemma arm_sos_refs [simp]: "s_agl_arm_ms (sos_refs s i) = s_agl_arm_ms s"
  by (simp add: sos_refs_def Let_def)

lemma fusion_tick_ready_out: "fa_agl_ready (snd (fusion_tick s i)) = s_agl_ready (fst (fusion_tick s i))"
  by (simp add: fusion_tick_def Let_def split: prod.splits)

lemma fusion_tick_ready:
  "\<not> s_reset_req s \<Longrightarrow>
   s_agl_ready (fst (fusion_tick s i)) =
     (s_agl_ready s \<or> fi_now i \<ge> (if s_agl_arm_ms s = 0 then fi_now i + ZERO_AGL_AFTER_MS
                                      else s_agl_arm_ms s))"
  by (simp add: fusion_tick_state Let_def agl_arm_ready)

lemma fusion_tick_req: "\<not> s_reset_req (fst (fusion_tick s i))"
  by (simp add: fusion_tick_state Let_def fusion_reset_def)

lemma fusion_run_ready:
  "s_agl_ready s \<Longrightarrow> \<not> s_reset_req s \<Longrightarrow> s_agl_ready (fusion_run s is)"
proof (induction "is" arbitrary: s)
  case Nil
  then show ?case by simp
next
  case (Cons i "is")
  have "s_agl_ready (fst (fusion_tick s i))"
    using Cons.prems by (simp add: fusion_tick_ready)
  then show ?case
    using Cons.IH [of "fst (fusion_tick s i)"] fusion_tick_req [of s i] by simp
qed

text \<open>
  Claim C7, as stated, fails: with no valid altitude from either sensor on any
  iteration, \<open>agl_ready\<close> is published true at the first iteration at or after the
  arming time, and both baselines are still NaN.
\<close>

theorem agl_ready_without_baseline_counterexample:
  "\<not> fi_vb (fin_blind 1) \<and> \<not> fi_vi (fin_blind 1)
   \<and> \<not> fi_vb (fin_blind 10001) \<and> \<not> fi_vi (fin_blind 10001)
   \<and> \<not> s_agl_ready (fusion_run fusion_boot [fin_blind 1])
   \<and> fa_agl_ready (snd (fusion_tick (fusion_run fusion_boot [fin_blind 1]) (fin_blind 10001)))
   \<and> isnan (s_base_bmp1_m (fst (fusion_tick (fusion_run fusion_boot [fin_blind 1]) (fin_blind 10001))))
   \<and> isnan (s_base_imu1_m (fst (fusion_tick (fusion_run fusion_boot [fin_blind 1]) (fin_blind 10001))))"
  by (simp add: blind1_state blind2) (simp add: fus_armed_def fusion_boot_def fin_blind_def)

lemma base_vz_baro [simp]:
  "s_base_bmp1_m (fst (vz_baro s now a)) = s_base_bmp1_m s
   \<and> s_base_imu1_m (fst (vz_baro s now a)) = s_base_imu1_m s"
  by (simp add: vz_baro_def Let_def split: prod.splits)

lemma base_az_earth [simp]:
  "s_base_bmp1_m (fst (az_earth s i d)) = s_base_bmp1_m s
   \<and> s_base_imu1_m (fst (az_earth s i d)) = s_base_imu1_m s"
  by (simp add: az_earth_def Let_def split: prod.splits)

lemma base_sos_refs [simp]:
  "s_base_bmp1_m (sos_refs s i) = s_base_bmp1_m s
   \<and> s_base_imu1_m (sos_refs s i) = s_base_imu1_m s"
  by (simp add: sos_refs_def Let_def)

lemma agl_arm_base:
  "s_base_bmp1_m (agl_arm s now b u) =
     (if s_agl_ready (agl_arm s now b u) \<and> isnan (s_base_bmp1_m s) \<and> \<not> isnan b
      then b else s_base_bmp1_m s)
   \<and> s_base_imu1_m (agl_arm s now b u) =
     (if s_agl_ready (agl_arm s now b u) \<and> isnan (s_base_imu1_m s) \<and> \<not> isnan u
      then u else s_base_imu1_m s)"
  by (simp add: agl_arm_def Let_def)

lemma fusion_tick_base:
  "\<not> s_reset_req s \<Longrightarrow>
   s_base_bmp1_m (fst (fusion_tick s i)) =
     (if s_agl_ready (fst (fusion_tick s i)) \<and> isnan (s_base_bmp1_m s)
         \<and> fi_vb i \<and> \<not> isnan (fi_b_altitude_m i)
      then fi_b_altitude_m i else s_base_bmp1_m s)
   \<and> s_base_imu1_m (fst (fusion_tick s i)) =
     (if s_agl_ready (fst (fusion_tick s i)) \<and> isnan (s_base_imu1_m s)
         \<and> fi_vi i \<and> \<not> isnan (fi_u1_altitude_m i)
      then fi_u1_altitude_m i else s_base_imu1_m s)"
  by (simp add: fusion_tick_state Let_def agl_arm_base)

text \<open>
  Claim C7, amended.  In an iteration with no reset pending, \<open>agl_ready\<close> is true
  afterwards exactly when it was true before or the time has reached the arming
  time (the stored one, or this iteration's time plus \<open>ZERO_AGL_AFTER_MS\<close> when
  none is stored), whatever the sensors report; the snapshot publishes that flag;
  once true it stays true on every later iteration as long as no soft reset is
  requested; and each sensor's baseline is captured on its own, at the first
  iteration with \<open>agl_ready\<close> on which that sensor delivers an altitude, and is
  kept from then on.
\<close>

theorem agl_ready_armed_by_time:
  "\<not> s_reset_req s \<longrightarrow>
     (s_agl_ready (fst (fusion_tick s i)) =
        (s_agl_ready s \<or> fi_now i \<ge> (if s_agl_arm_ms s = 0 then fi_now i + ZERO_AGL_AFTER_MS
                                         else s_agl_arm_ms s)))
     \<and> fa_agl_ready (snd (fusion_tick s i)) = s_agl_ready (fst (fusion_tick s i))
     \<and> (s_agl_ready s \<longrightarrow> (\<forall>is. s_agl_ready (fusion_run s is)))
     \<and> s_base_bmp1_m (fst (fusion_tick s i)) =
         (if s_agl_ready (fst (fusion_tick s i)) \<and> isnan (s_base_bmp1_m s)
             \<and> fi_vb i \<and> \<not> isnan (fi_b_altitude_m i)
          then fi_b_altitude_m i else s_base_bmp1_m s)
     \<and> s_base_imu1_m (fst (fusion_tick s i)) =
         (if s_agl_ready (fst (fusion_tick s i)) \<and> isnan (s_base_imu1_m s)
             \<and> fi_vi i \<and> \<not> isnan (fi_u1_altitude_m i)
          then fi_u1_altitude_m i else s_base_imu1_m s)"
  using fusion_tick_ready [of s i] fusion_tick_ready_out [of s i] fusion_run_ready [of s]
        fusion_tick_base [of s i]
  by blast

theorem agl_ready_armed_by_time_witness:
  "\<not> s_reset_req fus_armed \<and> \<not> s_agl_ready fus_armed
   \<and> s_agl_ready (fst (fusion_tick fus_armed (fin_blind 10001)))
   \<and> fa_agl_ready (snd (fusion_tick fus_armed (fin_blind 10001)))
   \<and> \<not> s_agl_ready (fst (fusion_tick fus_armed (fin_blind 10000)))
   \<and> s_agl_ready fus_ready
   \<and> s_agl_ready (fusion_run fus_ready [fin_blind 10021, fin_blind 10041])"
proof -
  have r: "\<not> s_reset_req fus_armed" "\<not> s_agl_ready fus_armed" "s_agl_arm_ms fus_armed = 10001"
    by (simp_all add: fus_armed_def fusion_boot_def)
  have q: "\<not> s_reset_req fus_ready" "s_agl_ready fus_ready"
    by (simp_all add: fus_ready_def)
  from agl_ready_armed_by_time [of fus_armed "fin_blind 10001"] r
  have a: "s_agl_ready (fst (fusion_tick fus_armed (fin_blind 10001)))"
    and a': "fa_agl_ready (snd (fusion_tick fus_armed (fin_blind 10001)))"
    by (simp_all add: fin_blind_def)
  from agl_ready_armed_by_time [of fus_armed "fin_blind 10000"] r
  have b: "\<not> s_agl_ready (fst (fusion_tick fus_armed (fin_blind 10000)))"
    by (simp add: fin_blind_def)
  from agl_ready_armed_by_time [of fus_ready "fin_blind 0"] q
  have c: "s_agl_ready (fusion_run fus_ready [fin_blind 10021, fin_blind 10041])"
    by blast
  from r q a a' b c show ?thesis by simp
qed

subsection \<open>Apogee predictor\<close>

lemma fusion_tick_predict:
  "fa_t_apogee_s (snd (fusion_tick s i)) =
     fst (apogee_predict (fst (fusion_tick s i)) (fa_agl_fused_m (snd (fusion_tick s i)))
            (fa_vz_mps (snd (fusion_tick s i))))
   \<and> fa_apogee_agl_m (snd (fusion_tick s i)) =
     snd (apogee_predict (fst (fusion_tick s i)) (fa_agl_fused_m (snd (fusion_tick s i)))
            (fa_vz_mps (snd (fusion_tick s i))))"
  by (simp add: fusion_tick_def Let_def split: prod.splits)

text \<open>
  Claim C4, as stated, fails.  The altitude rises by 1 cm in 20 ms while the
  accelerometer reads 0.3 g: the baro-derivative speed is 0.5 m/s and the fused
  speed is negative, yet the predictor publishes a positive time to apogee and an
  apogee above the fused AGL.
\<close>

theorem apogee_predictor_vz_fused_counterexample:
  "fa_agl_ready (snd (fusion_tick
      (fusion_run fusion_boot [fin_imu 1 (Fin 100) (Fin 1), fin_imu 10001 (Fin 100) (Fin 1)])
      (fin_imu 10021 (Fin 100.01) (Fin 0.3))))
   \<and> fa_agl_fused_m (snd (fusion_tick
      (fusion_run fusion_boot [fin_imu 1 (Fin 100) (Fin 1), fin_imu 10001 (Fin 100) (Fin 1)])
      (fin_imu 10021 (Fin 100.01) (Fin 0.3)))) = Fin 0.01
   \<and> fa_vz_fused_mps (snd (fusion_tick
      (fusion_run fusion_boot [fin_imu 1 (Fin 100) (Fin 1), fin_imu 10001 (Fin 100) (Fin 1)])
      (fin_imu 10021 (Fin 100.01) (Fin 0.3)))) = Fin (- 0.00983448)
   \<and> fa_t_apogee_s (snd (fusion_tick
      (fusion_run fusion_boot [fin_imu 1 (Fin 100) (Fin 1), fin_imu 10001 (Fin 100) (Fin 1)])
      (fin_imu 10021 (Fin 100.01) (Fin 0.3)))) = Fin (0.35 / 9.80665)
   \<and> fa_apogee_agl_m (snd (fusion_tick
      (fusion_run fusion_boot [fin_imu 1 (Fin 100) (Fin 1), fin_imu 10001 (Fin 100) (Fin 1)])
      (fin_imu 10021 (Fin 100.01) (Fin 0.3)))) = Fin (0.01 + 0.2 / 19.6133)"
  unfolding climb_run tick3 by simp

text \<open>
  Claim C4, amended.  On every iteration with \<open>agl_ready\<close>, a fused AGL \<open>a\<close> and a
  baro-derivative vertical speed \<open>v\<close> (the published \<open>vz_mps\<close>, not \<open>vz_fused\<close>):
  when \<open>v > 0\<close> the predictor publishes \<open>0.7 v / g\<close> and
  \<open>a + 0.8 v\<^sup>2 / (2 g)\<close> with \<open>g = 9.80665\<close>; when \<open>v \<le> 0\<close> it publishes 0 and \<open>a\<close>.
\<close>

theorem apogee_predictor_baro_vz:
  assumes "fa_agl_ready (snd (fusion_tick s i))"
      and "fa_agl_fused_m (snd (fusion_tick s i)) = Fin a"
      and "fa_vz_mps (snd (fusion_tick s i)) = Fin v"
  shows "(v > 0 \<longrightarrow>
            fa_t_apogee_s (snd (fusion_tick s i)) = Fin (0.7 * (v / 9.80665))
          \<and> fa_apogee_agl_m (snd (fusion_tick s i)) = Fin (a + 0.8 * (v * v) / (2 * 9.80665)))
       \<and> (v \<le> 0 \<longrightarrow>
            fa_t_apogee_s (snd (fusion_tick s i)) = Fin 0
          \<and> fa_apogee_agl_m (snd (fusion_tick s i)) = Fin a)"
proof -
  have r: "s_agl_ready (fst (fusion_tick s i))"
    using assms(1) by (simp add: fusion_tick_ready_out)
  show ?thesis
    using fusion_tick_predict [of s i] r assms(2,3)
    by (simp add: apogee_predict_def f_gt_def FUSION_SAFE_TAPX_FACTOR_def
        FUSION_SAFE_ZAPX_FACTOR_def G0_def)
qed

theorem apogee_predictor_baro_vz_witness:
  "fa_agl_ready (snd (fusion_tick fus_ready (fin_imu 10021 (Fin 100.01) (Fin 0.3))))
   \<and> fa_vz_mps (snd (fusion_tick fus_ready (fin_imu 10021 (Fin 100.01) (Fin 0.3)))) = Fin 0.5
   \<and> fa_t_apogee_s (snd (fusion_tick fus_ready (fin_imu 10021 (Fin 100.01) (Fin 0.3))))
       = Fin (0.7 * (0.5 / 9.80665))
   \<and> fa_apogee_agl_m (snd (fusion_tick fus_ready (fin_imu 10021 (Fin 100.01) (Fin 0.3))))
       = Fin (0.01 + 0.8 * (0.5 * 0.5) / (2 * 9.80665))
   \<and> fa_agl_ready (snd (fusion_tick fus_ready (fin_imu 10021 (Fin 99.99) (Fin 1))))
   \<and> fa_vz_mps (snd (fusion_tick fus_ready (fin_imu 10021 (Fin 99.99) (Fin 1)))) = Fin (- 0.5)
   \<and> fa_t_apogee_s (snd (fusion_tick fus_ready (fin_imu 10021 (Fin 99.99) (Fin 1)))) = Fin 0
   \<and> fa_apogee_agl_m (snd (fusion_tick fus_ready (fin_imu 10021 (Fin 99.99) (Fin 1))))
       = Fin (- 0.01)"
proof -
  let ?u = "snd (fusion_tick fus_ready (fin_imu 10021 (Fin 100.01) (Fin 0.3)))"
  let ?d = "snd (fusion_tick fus_ready (fin_imu 10021 (Fin 99.99) (Fin 1)))"
  have u: "fa_agl_ready ?u" "fa_agl_fused_m ?u = Fin 0.01" "fa_vz_mps ?u = Fin 0.5"
    unfolding tick3 by simp_all
  have d: "fa_agl_ready ?d" "fa_agl_fused_m ?d = Fin (- 0.01)" "fa_vz_mps ?d = Fin (- 0.5)"
    unfolding tick3_down by simp_all
  from apogee_predictor_baro_vz [OF u] apogee_predictor_baro_vz [OF d] u d
  show ?thesis by simp
qed

subsection \<open>Conservative Mach\<close>

lemma sos_agl_arm [simp]: "sos_min_mps (agl_arm s now b u) = sos_min_mps s"
  by (simp add: agl_arm_def Let_def)

lemma sos_vz_baro [simp]: "sos_min_mps (fst (vz_baro s now a)) = sos_min_mps s"
  by (simp add: vz_baro_def Let_def split: prod.splits)

lemma sos_az_earth [simp]: "sos_min_mps (fst (az_earth s i d)) = sos_min_mps s"
  by (simp add: az_earth_def Let_def split: prod.splits)

lemma acc_agl_arm [simp]: "vz_acc (agl_arm s now b u) = vz_acc s"
  by (simp add: agl_arm_def Let_def)

lemma acc_vz_baro [simp]: "vz_acc (fst (vz_baro s now a)) = vz_acc s"
  by (simp add: vz_baro_def Let_def split: prod.splits)

lemma acc_sos_refs [simp]: "vz_acc (sos_refs s i) = vz_acc s"
  by (simp add: sos_refs_def Let_def)

lemma f_ge_fmaxf: "f_ge (fmaxf (Fin a) y) (Fin a)"
  by (cases y) (simp_all add: f_ge_def)

lemma sos_refs_floor:
  "f_ge (sos_min_mps s) SOS_MIN_FLOOR_MPS \<Longrightarrow> f_ge (sos_min_mps (sos_refs s i)) SOS_MIN_FLOOR_MPS"
  by (simp add: sos_refs_def Let_def SOS_MIN_FLOOR_MPS_def f_ge_fmaxf)

lemma dt_s_not_nan:
  "\<not> isnan (if isnan d then f_div FUSION_VZ_MAX_DT_MS (Fin 1000) else d)"
  by (simp add: FUSION_VZ_MAX_DT_MS_def)

lemma f_mul_not_nan: "\<not> isnan x \<Longrightarrow> \<not> isnan y \<Longrightarrow> \<not> isnan (f_mul x y)"
  by (cases x; cases y) simp_all

lemma f_add_not_nan: "\<not> isnan x \<Longrightarrow> \<not> isnan y \<Longrightarrow> \<not> isnan (f_add x y)"
  by (cases x; cases y) simp_all

lemma az_earth_acc: "\<not> isnan (vz_acc s) \<Longrightarrow> \<not> isnan (vz_acc (fst (az_earth s i d)))"
proof -
  assume a: "\<not> isnan (vz_acc s)"
  then obtain v where v: "vz_acc s = Fin v" by (cases "vz_acc s") simp_all
  show ?thesis
    using dt_s_not_nan [of d]
    by (auto simp add: az_earth_def Let_def v f_mul_not_nan f_add_not_nan split: prod.splits)
qed

lemma sos_inv_boot: "sos_inv fusion_boot"
  by (simp add: sos_inv_def fusion_boot_def SOS_MIN_FLOOR_MPS_def f_ge_def)

lemma sos_inv_reset: "sos_inv (fst (fusion_reset s now_r))"
  by (simp add: sos_inv_def fusion_reset_def SOS_MIN_FLOOR_MPS_def f_ge_def)

lemma sos_inv_req: "sos_inv s \<Longrightarrow> sos_inv (fusionSoftReset s)"
  by (simp add: sos_inv_def fusionSoftReset_def)

lemma sos_inv_tick: "sos_inv s \<Longrightarrow> sos_inv (fst (fusion_tick s i))"
proof -
  assume h: "sos_inv s"
  let ?s0 = "if s_reset_req s then fst (fusion_reset s (fi_reset_now i)) else s"
  have i0: "sos_inv ?s0" using h by (simp add: sos_inv_reset)
  show ?thesis
    unfolding fusion_tick_state Let_def sos_inv_def
    using i0 by (simp add: sos_refs_floor az_earth_acc sos_inv_def)
qed

lemma sos_inv_exec: "sos_inv s \<Longrightarrow> sos_inv (fusion_exec s es)"
proof (induction es arbitrary: s)
  case Nil
  then show ?case by simp
next
  case (Cons e es)
  then show ?case by (cases e) (simp_all add: sos_inv_tick sos_inv_req)
qed

lemma fusion_tick_mach:
  "fa_mach_cons (snd (fusion_tick s i)) =
     mach_conservative (fst (fusion_tick s i)) (fa_vz_fused_mps (snd (fusion_tick s i)))
   \<and> fa_sos_min_mps (snd (fusion_tick s i)) = sos_min_mps (fst (fusion_tick s i))
   \<and> fa_vz_fused_mps (snd (fusion_tick s i)) =
       vz_fuse (fa_vz_mps (snd (fusion_tick s i))) (vz_acc (fst (fusion_tick s i)))"
  by (simp add: fusion_tick_def Let_def split: prod.splits)

lemma mach_conservative_eq:
  "mach_conservative s v =
     (if \<not> isnan v \<and> have_sos_refs s
      then f_div (f_div (fabsf v) cosf_tilt_max_deploy) (sos_min_mps s) else NaN)"
  by (simp add: mach_conservative_def Let_def cosf_tilt_max_deploy_def)

lemma fc_step_mach: "mach_cons (snd (fc_step cs j)) = fc_mach j"
  by (simp add: fc_step_def update_flags_def Let_def split: prod.splits)

lemma fc_mach_eq:
  "fc_mach j = (if \<not> isnan (mach_vz_in j)
                then f_div (f_div (fabsf (mach_vz_in j)) cosf_tilt_abort) FC_SOS_FIXED_MPS else NaN)"
  by (simp add: fc_mach_def Let_def cosf_tilt_abort_def)

lemma have_sos_after: "fi_vb i \<Longrightarrow> have_sos_refs (fst (fusion_tick s i))"
  by (simp add: fusion_tick_state Let_def sos_refs_def)

lemma vz_fuse_not_nan: "\<not> isnan a \<Longrightarrow> \<not> isnan (vz_fuse v a)"
  by (cases v; cases a) (simp_all add: vz_fuse_def FUSION_VZ_FUSE_BETA_def)

lemma f_div_not_nan: "\<not> isnan x \<Longrightarrow> f_ge y (Fin 300) \<Longrightarrow> \<not> isnan (f_div x y)"
  by (cases x; cases y) (simp_all add: f_ge_def)

lemma refs_agl_arm [simp]: "have_sos_refs (agl_arm s now b u) = have_sos_refs s"
  by (simp add: agl_arm_def Let_def)

lemma refs_vz_baro [simp]: "have_sos_refs (fst (vz_baro s now a)) = have_sos_refs s"
  by (simp add: vz_baro_def Let_def split: prod.splits)

lemma refs_az_earth [simp]: "have_sos_refs (fst (az_earth s i d)) = have_sos_refs s"
  by (simp add: az_earth_def Let_def split: prod.splits)

lemma refs_sos_refs: "have_sos_refs (sos_refs s i) = (have_sos_refs s \<or> fi_vb i)"
  by (simp add: sos_refs_def Let_def)

lemma fusion_tick_refs:
  "have_sos_refs (fst (fusion_tick s i)) = (fi_vb i \<or> have_sos_refs s \<and> \<not> s_reset_req s)"
  by (auto simp add: fusion_tick_state Let_def refs_sos_refs fusion_reset_def)

lemma fusion_published_eq:
  "fusion_published s i =
     (if s_reset_req s then [FusedAlt_zero\<lparr>fa_stamp_ms := fi_reset_now i\<rparr>, snd (fusion_tick s i)]
      else [snd (fusion_tick s i)])"
  by (simp add: fusion_published_def fusion_reset_def)

lemma fc_step_mach_eq:
  "mach_cons (snd (fc_step cs j)) =
     (if isnan (vz_fused_mps j) \<and> isnan (vz_mps j) then NaN
      else f_div (f_div (fabsf (if \<not> isnan (vz_fused_mps j) then vz_fused_mps j else vz_mps j))
                        cosf_tilt_abort)
                 FC_SOS_FIXED_MPS)"
  by (simp add: fc_step_mach fc_mach_eq mach_vz_in_def)

lemma fc_step_mach_nan:
  "isnan (mach_cons (snd (fc_step cs j))) = (isnan (vz_fused_mps j) \<and> isnan (vz_mps j))"
  by (simp add: fc_step_mach isnan_fc_mach mach_vz_in_def)

lemma sos_floor_15c: "(300::real) \<le> sqrt (1.4 * 287.05 * 268.35)"
  by (rule real_le_rsqrt) simp

lemma sos_refs_15c:
  "\<not> have_sos_refs s \<Longrightarrow>
   sos_min_mps (sos_refs s (fin_at now alt az_g)) = Fin (sqrt (1.4 * 287.05 * 268.35))"
  using sos_floor_15c
  by (simp add: sos_refs_def fin_at_def Let_def SOS_10KFT_DELTA_K_def SOS_MIN_FLOOR_MPS_def
      min_def max_def)

lemma tick3_baro:
  "fa_vz_fused_mps (snd (fusion_tick fus_ready (fin_at 10021 (Fin 100.01) (Fin 0.3))))
     = Fin (- 0.07983448)
   \<and> fa_sos_min_mps (snd (fusion_tick fus_ready (fin_at 10021 (Fin 100.01) (Fin 0.3))))
     = Fin (sqrt (1.4 * 287.05 * 268.35))"
proof -
  let ?i = "fin_at 10021 (Fin 100.01) (Fin 0.3)"
  let ?s1 = "fus_ready\<lparr>s_base_bmp1_m := Fin 100.01\<rparr>"
  let ?s2 = "?s1\<lparr>prev_alt := Fin 0.003, fus_prev_ms := 10021, vz_filt := Fin 0.15\<rparr>"
  let ?s3 = "?s2\<lparr>vz_acc := Fin (- 0.1372931)\<rparr>"
  have a: "agl_arm fus_ready (fi_now ?i) (Fin 100.01) (Fin 100.01) = ?s1"
    by (simp add: Let_def word_le_nat_alt agl_arm_def fus_ready_def fin_at_def)
  have b: "agl_values ?s1 (Fin 100.01) (Fin 100.01) = (Fin 0, Fin 0.01, Fin 0.003)"
    by (simp add: Let_def agl_values_def fus_ready_def FUSION_W_BMP1_def FUSION_W_IMU1_def)
  have c: "vz_baro ?s1 (fi_now ?i) (Fin 0.003) = (?s2, Fin 0.15, Fin 0.02)"
    by (simp add: Let_def vz_baro_def fus_ready_def fin_at_def u32_to_f_def f_gt_def
        FUSION_VZ_MAX_DT_MS_def FUSION_VZ_ALPHA_def)
  have d: "az_earth ?s2 ?i (Fin 0.02) = (?s3, Fin (- 6.864655))"
    by (simp add: Let_def az_earth_def fin_at_def rotate_identity G0_def fus_ready_def)
  have e: "sos_refs ?s3 ?i = sos_refs ?s3 ?i"
    by simp
  have p1: "fus_ready = (if s_reset_req fus_ready then fst (fusion_reset fus_ready (fi_reset_now ?i)) else fus_ready)"
    by (simp add: fus_ready_def)
  have p2: "Fin 100.01 = (if fi_vb ?i then fi_b_altitude_m ?i else NaN)"
    by (simp add: fin_at_def)
  have p3: "Fin 100.01 = (if fi_vi ?i then fi_u1_altitude_m ?i else NaN)"
    by (simp add: fin_at_def)
  have h: "\<not> have_sos_refs ?s3"
    by (simp add: fus_ready_def)
  have s: "sos_min_mps (sos_refs ?s3 ?i) = Fin (sqrt (1.4 * 287.05 * 268.35))"
    by (rule sos_refs_15c [OF h])
  have v: "vz_acc (sos_refs ?s3 ?i) = Fin (- 0.1372931)"
    by simp
  show ?thesis
    unfolding fusion_tick_stages [OF p1 p2 p3 a b c d e] snd_conv FusedAlt.select_convs s v
    by (simp add: vz_fuse_def FUSION_VZ_FUSE_BETA_def)
qed

text \<open>
  Claim C3, as stated, fails on the iteration that serves a soft reset: the reset
  block clears the published snapshot to zero, so until the end of that iteration
  the published conservative Mach is the number 0 and the published \<open>sos_min\<close> is
  0, below the floor.
\<close>

theorem cleared_snapshot_mach_counterexample:
  "s_reset_req (fusion_exec fusion_boot [ResetReq])
   \<and> fusion_published (fusion_exec fusion_boot [ResetReq]) (fin_blind 5000) ! 0
       = FusedAlt_zero\<lparr>fa_stamp_ms := 5000\<rparr>
   \<and> fa_mach_cons (fusion_published (fusion_exec fusion_boot [ResetReq]) (fin_blind 5000) ! 0) = Fin 0
   \<and> fa_sos_min_mps (fusion_published (fusion_exec fusion_boot [ResetReq]) (fin_blind 5000) ! 0) = Fin 0
   \<and> \<not> f_ge (fa_sos_min_mps (fusion_published (fusion_exec fusion_boot [ResetReq]) (fin_blind 5000) ! 0))
             SOS_MIN_FLOOR_MPS"
  by (simp add: fusion_published_eq fusionSoftReset_def FusedAlt_zero_def fin_blind_def
      SOS_MIN_FLOOR_MPS_def f_ge_def)

text \<open>
  Claim C3, amended.  An iteration publishes the snapshot of its end, preceded, when
  a soft reset is pending, by the cleared all-zero snapshot.  After any run of
  iterations and soft-reset requests from power-on, the snapshot of the end of the
  iteration has \<open>sos_min\<close> at least \<open>SOS_MIN_FLOOR_MPS\<close> and \<open>vz_fused\<close> not
  NaN; its conservative Mach is \<open>|vz_fused| / cos 20\<degree> / sos_min\<close> when the
  speed-of-sound references have been captured (a valid barometer reading on this
  iteration, or on an earlier one since the last reset) and NaN otherwise.  On
  every flight-controller step the reported Mach is NaN when \<open>vz_fused\<close> and the
  fallback \<open>vz_mps\<close> are both NaN, and otherwise the magnitude of \<open>vz_fused\<close>
  (of \<open>vz_mps\<close> when \<open>vz_fused\<close> is NaN) over \<open>cos 30\<degree>\<close> and the fixed
  \<open>FC_SOS_FIXED_MPS\<close>, which is at least the floor.
\<close>

theorem mach_cons_nan_guards:
  "fusion_published (fusion_exec fusion_boot es) i =
     (if s_reset_req (fusion_exec fusion_boot es)
      then [FusedAlt_zero\<lparr>fa_stamp_ms := fi_reset_now i\<rparr>,
            snd (fusion_tick (fusion_exec fusion_boot es) i)]
      else [snd (fusion_tick (fusion_exec fusion_boot es) i)])
   \<and> f_ge (fa_sos_min_mps (snd (fusion_tick (fusion_exec fusion_boot es) i))) SOS_MIN_FLOOR_MPS
   \<and> \<not> isnan (fa_vz_fused_mps (snd (fusion_tick (fusion_exec fusion_boot es) i)))
   \<and> fa_mach_cons (snd (fusion_tick (fusion_exec fusion_boot es) i)) =
       (if \<not> isnan (fa_vz_fused_mps (snd (fusion_tick (fusion_exec fusion_boot es) i)))
           \<and> have_sos_refs (fst (fusion_tick (fusion_exec fusion_boot es) i))
        then f_div (f_div (fabsf (fa_vz_fused_mps (snd (fusion_tick (fusion_exec fusion_boot es) i))))
                          cosf_tilt_max_deploy)
                   (fa_sos_min_mps (snd (fusion_tick (fusion_exec fusion_boot es) i)))
        else NaN)
   \<and> isnan (fa_mach_cons (snd (fusion_tick (fusion_exec fusion_boot es) i))) =
       (\<not> have_sos_refs (fst (fusion_tick (fusion_exec fusion_boot es) i)))
   \<and> have_sos_refs (fst (fusion_tick (fusion_exec fusion_boot es) i)) =
       (fi_vb i \<or> have_sos_refs (fusion_exec fusion_boot es)
                  \<and> \<not> s_reset_req (fusion_exec fusion_boot es))
   \<and> mach_cons (snd (fc_step cs j)) =
       (if isnan (vz_fused_mps j) \<and> isnan (vz_mps j) then NaN
        else f_div (f_div (fabsf (if \<not> isnan (vz_fused_mps j) then vz_fused_mps j else vz_mps j))
                          cosf_tilt_abort)
                   FC_SOS_FIXED_MPS)
   \<and> isnan (mach_cons (snd (fc_step cs j))) = (isnan (vz_fused_mps j) \<and> isnan (vz_mps j))
   \<and> f_ge FC_SOS_FIXED_MPS SOS_MIN_FLOOR_MPS"
proof (intro conjI)
  let ?s = "fusion_exec fusion_boot es"
  let ?out = "snd (fusion_tick ?s i)"
  show "fusion_published ?s i =
     (if s_reset_req ?s then [FusedAlt_zero\<lparr>fa_stamp_ms := fi_reset_now i\<rparr>, ?out] else [?out])"
    by (rule fusion_published_eq)
  have inv: "sos_inv (fst (fusion_tick ?s i))"
    by (intro sos_inv_tick sos_inv_exec sos_inv_boot)
  then show fl: "f_ge (fa_sos_min_mps ?out) SOS_MIN_FLOOR_MPS"
    by (simp add: fusion_tick_mach sos_inv_def)
  show vf: "\<not> isnan (fa_vz_fused_mps ?out)"
    using inv fusion_tick_mach [of ?s i] by (simp add: sos_inv_def vz_fuse_not_nan)
  show eq: "fa_mach_cons ?out =
       (if \<not> isnan (fa_vz_fused_mps ?out) \<and> have_sos_refs (fst (fusion_tick ?s i))
        then f_div (f_div (fabsf (fa_vz_fused_mps ?out)) cosf_tilt_max_deploy) (fa_sos_min_mps ?out)
        else NaN)"
    using fusion_tick_mach [of ?s i] by (simp add: mach_conservative_eq)
  have c: "\<not> isnan (f_div (fabsf (fa_vz_fused_mps ?out)) cosf_tilt_max_deploy)"
    using vf by (cases "fa_vz_fused_mps ?out") (simp_all add: cosf_tilt_max_deploy_def)
  have "\<not> isnan (f_div (f_div (fabsf (fa_vz_fused_mps ?out)) cosf_tilt_max_deploy)
                        (fa_sos_min_mps ?out))"
    using fl by (intro f_div_not_nan [OF c]) (simp add: SOS_MIN_FLOOR_MPS_def)
  then show "isnan (fa_mach_cons ?out) = (\<not> have_sos_refs (fst (fusion_tick ?s i)))"
    using vf by (simp add: eq)
  show "have_sos_refs (fst (fusion_tick ?s i)) =
       (fi_vb i \<or> have_sos_refs ?s \<and> \<not> s_reset_req ?s)"
    by (rule fusion_tick_refs)
  show "mach_cons (snd (fc_step cs j)) =
       (if isnan (vz_fused_mps j) \<and> isnan (vz_mps j) then NaN
        else f_div (f_div (fabsf (if \<not> isnan (vz_fused_mps j) then vz_fused_mps j else vz_mps j))
                          cosf_tilt_abort)
                   FC_SOS_FIXED_MPS)"
    by (rule fc_step_mach_eq)
  show "isnan (mach_cons (snd (fc_step cs j))) = (isnan (vz_fused_mps j) \<and> isnan (vz_mps j))"
    by (rule fc_step_mach_nan)
  show "f_ge FC_SOS_FIXED_MPS SOS_MIN_FLOOR_MPS"
    by (simp add: FC_SOS_FIXED_MPS_def SOS_MIN_FLOOR_MPS_def f_ge_def)
qed

theorem mach_cons_nan_guards_witness:
  "length (fusion_published (fusion_exec fusion_boot [ResetReq]) (fin_at 1 (Fin 100) (Fin 1))) = 2
   \<and> fa_mach_cons (fusion_published (fusion_exec fusion_boot [ResetReq])
                                     (fin_at 1 (Fin 100) (Fin 1)) ! 0) = Fin 0
   \<and> have_sos_refs (fst (fusion_tick (fusion_exec fusion_boot [ResetReq])
                                     (fin_at 1 (Fin 100) (Fin 1))))
   \<and> \<not> isnan (fa_mach_cons (snd (fusion_tick (fusion_exec fusion_boot [ResetReq])
                                   (fin_at 1 (Fin 100) (Fin 1)))))
   \<and> f_ge (fa_sos_min_mps (snd (fusion_tick (fusion_exec fusion_boot [ResetReq])
                                   (fin_at 1 (Fin 100) (Fin 1))))) (Fin 300)
   \<and> isnan (fa_mach_cons (snd (fusion_tick fusion_boot (fin_blind 1))))
   \<and> fa_mach_cons (snd (fusion_tick
         (fusion_exec fusion_boot [Iter (fin_imu 1 (Fin 100) (Fin 1)),
                                   Iter (fin_imu 10001 (Fin 100) (Fin 1))])
         (fin_at 10021 (Fin 100.01) (Fin 0.3))))
       = Fin (0.07983448 / 0.9396926 / sqrt (1.4 * 287.05 * 268.35))
   \<and> mach_cons (snd (fc_step fc_boot in_pad)) = Fin 0
   \<and> mach_cons (snd (fc_step fc_boot in_fallback)) = Fin (10 / 0.8660254 / 300)
   \<and> isnan (mach_cons (snd (fc_step fc_boot (in_pad\<lparr>vz_fused_mps := NaN, vz_mps := NaN\<rparr>))))"
proof -
  let ?s = "fusion_exec fusion_boot [ResetReq]"
  let ?i = "fin_at 1 (Fin 100) (Fin 1)"
  have r: "s_reset_req ?s" "fi_vb ?i"
    by (simp_all add: fusionSoftReset_def fin_at_def)
  from mach_cons_nan_guards [of "[ResetReq]" ?i fc_boot in_pad]
  have p: "fusion_published ?s ?i =
             (if s_reset_req ?s then [FusedAlt_zero\<lparr>fa_stamp_ms := fi_reset_now ?i\<rparr>,
                                      snd (fusion_tick ?s ?i)]
              else [snd (fusion_tick ?s ?i)])"
    and fl: "f_ge (fa_sos_min_mps (snd (fusion_tick ?s ?i))) SOS_MIN_FLOOR_MPS"
    and nn: "isnan (fa_mach_cons (snd (fusion_tick ?s ?i))) = (\<not> have_sos_refs (fst (fusion_tick ?s ?i)))"
    and hr: "have_sos_refs (fst (fusion_tick ?s ?i)) = (fi_vb ?i \<or> have_sos_refs ?s \<and> \<not> s_reset_req ?s)"
    and m: "mach_cons (snd (fc_step fc_boot in_pad)) =
       (if isnan (vz_fused_mps in_pad) \<and> isnan (vz_mps in_pad) then NaN
        else f_div (f_div (fabsf (if \<not> isnan (vz_fused_mps in_pad) then vz_fused_mps in_pad else vz_mps in_pad))
                          cosf_tilt_abort)
                   FC_SOS_FIXED_MPS)"
    by blast+
  from p r(1) have a: "length (fusion_published ?s ?i) = 2"
    "fa_mach_cons (fusion_published ?s ?i ! 0) = Fin 0"
    by (simp_all add: FusedAlt_zero_def)
  from hr r(2) have h: "have_sos_refs (fst (fusion_tick ?s ?i))"
    by simp
  from nn h have n: "\<not> isnan (fa_mach_cons (snd (fusion_tick ?s ?i)))"
    by simp
  from fl have f: "f_ge (fa_sos_min_mps (snd (fusion_tick ?s ?i))) (Fin 300)"
    by (simp add: SOS_MIN_FLOOR_MPS_def)
  have e: "fusion_exec fusion_boot [] = fusion_boot"
    by simp
  from mach_cons_nan_guards [of "[]" "fin_blind 1" fc_boot in_fallback]
  have nb: "isnan (fa_mach_cons (snd (fusion_tick fusion_boot (fin_blind 1)))) =
              (\<not> have_sos_refs (fst (fusion_tick fusion_boot (fin_blind 1))))"
    and hb: "have_sos_refs (fst (fusion_tick fusion_boot (fin_blind 1))) =
              (fi_vb (fin_blind 1) \<or> have_sos_refs fusion_boot \<and> \<not> s_reset_req fusion_boot)"
    and mf: "mach_cons (snd (fc_step fc_boot in_fallback)) =
       (if isnan (vz_fused_mps in_fallback) \<and> isnan (vz_mps in_fallback) then NaN
        else f_div (f_div (fabsf (if \<not> isnan (vz_fused_mps in_fallback) then vz_fused_mps in_fallback
                                  else vz_mps in_fallback))
                          cosf_tilt_abort)
                   FC_SOS_FIXED_MPS)"
    unfolding e by blast+
  from nb hb have b: "isnan (fa_mach_cons (snd (fusion_tick fusion_boot (fin_blind 1))))"
    by (simp add: fin_blind_def fusion_boot_def)
  from m have m0: "mach_cons (snd (fc_step fc_boot in_pad)) = Fin 0"
    by (simp add: in_pad_def cosf_tilt_abort_def FC_SOS_FIXED_MPS_def)
  from mf have m1: "mach_cons (snd (fc_step fc_boot in_fallback)) = Fin (10 / 0.8660254 / 300)"
    by (simp add: in_fallback_def in_pad_def cosf_tilt_abort_def FC_SOS_FIXED_MPS_def)
  from mach_cons_nan_guards [of "[]" "fin_blind 1" fc_boot "in_pad\<lparr>vz_fused_mps := NaN, vz_mps := NaN\<rparr>"]
  have "isnan (mach_cons (snd (fc_step fc_boot (in_pad\<lparr>vz_fused_mps := NaN, vz_mps := NaN\<rparr>)))) =
           (isnan (vz_fused_mps (in_pad\<lparr>vz_fused_mps := NaN, vz_mps := NaN\<rparr>))
            \<and> isnan (vz_mps (in_pad\<lparr>vz_fused_mps := NaN, vz_mps := NaN\<rparr>)))"
    by blast
  then have m2: "isnan (mach_cons (snd (fc_step fc_boot (in_pad\<lparr>vz_fused_mps := NaN, vz_mps := NaN\<rparr>))))"
    by simp
  let ?es = "[Iter (fin_imu 1 (Fin 100) (Fin 1)), Iter (fin_imu 10001 (Fin 100) (Fin 1))]"
  let ?k = "fin_at 10021 (Fin 100.01) (Fin 0.3)"
  have ex: "fusion_exec fusion_boot ?es = fus_ready"
    by (simp add: tick1_state tick2_state)
  from mach_cons_nan_guards [of ?es ?k fc_boot in_pad]
  have ke: "fa_mach_cons (snd (fusion_tick fus_ready ?k)) =
       (if \<not> isnan (fa_vz_fused_mps (snd (fusion_tick fus_ready ?k)))
           \<and> have_sos_refs (fst (fusion_tick fus_ready ?k))
        then f_div (f_div (fabsf (fa_vz_fused_mps (snd (fusion_tick fus_ready ?k))))
                          cosf_tilt_max_deploy)
                   (fa_sos_min_mps (snd (fusion_tick fus_ready ?k)))
        else NaN)"
    and kh: "have_sos_refs (fst (fusion_tick fus_ready ?k)) =
       (fi_vb ?k \<or> have_sos_refs fus_ready \<and> \<not> s_reset_req fus_ready)"
    unfolding ex by blast+
  from kh have kr: "have_sos_refs (fst (fusion_tick fus_ready ?k))"
    by (simp add: fin_at_def)
  have kv: "fa_vz_fused_mps (snd (fusion_tick fus_ready ?k)) = Fin (- 0.07983448)"
    and ks: "fa_sos_min_mps (snd (fusion_tick fus_ready ?k)) = Fin (sqrt (1.4 * 287.05 * 268.35))"
    using tick3_baro by blast+
  have k: "fa_mach_cons (snd (fusion_tick (fusion_exec fusion_boot ?es) ?k))
             = Fin (0.07983448 / 0.9396926 / sqrt (1.4 * 287.05 * 268.35))"
    unfolding ex ke kv ks using kr by (simp add: cosf_tilt_max_deploy_def)
  from a h n f b k m0 m1 m2 show ?thesis by simp
qed

section \<open>Properties of the telemetry CRC\<close>

lemma crc_mask: "- ((crc::u32) AND 1) = (if bit crc 0 then - 1 else 0)"
  by (simp add: and_one_eq bit_0 mod_2_eq_odd)

lemma crc32_bits_step:
  "(let mask = - (crc AND 1) in drop_bit 1 crc XOR (0xEDB88320 AND mask)) = crc_spec_shift crc"
  by (simp add: crc_mask crc_spec_shift_def Let_def)

lemma crc32_bits_funpow: "crc32_bits n crc = (crc_spec_shift ^^ n) crc"
proof (induction n arbitrary: crc)
  case 0
  show ?case by simp
next
  case (Suc n)
  have "crc32_bits (Suc n) crc = crc32_bits n (crc_spec_shift crc)"
    using crc32_bits_step [of crc] by (simp add: Let_def)
  also have "\<dots> = (crc_spec_shift ^^ n) (crc_spec_shift crc)"
    by (rule Suc.IH)
  also have "\<dots> = (crc_spec_shift ^^ Suc n) crc"
    by (simp add: funpow_swap1)
  finally show ?case .
qed

lemma crc32_bytes_foldl: "crc32_bytes crc data = foldl crc_spec_byte crc data"
  by (induction data arbitrary: crc) (simp_all add: crc_spec_byte_def crc32_bits_funpow)

text \<open>
  Claim C8.  With the CRC enabled the \<^verbatim>\<open>crc32\<close> field is the reflected IEEE
  CRC-32 (polynomial 0xEDB88320, initial value 0xFFFFFFFF, final XOR 0xFFFFFFFF) of
  the bytes that precede it, which is what a check recomputes; with the CRC
  disabled the field is 0.
\<close>

theorem telemetry_crc_is_ieee:
  "telemetry_crc32 True pre = crc32_ieee_spec pre
   \<and> telemetry_crc32 True pre = crc32_update 0 pre
   \<and> telemetry_crc32 False pre = 0"
  by (simp add: telemetry_crc32_def crc32_update_def crc32_ieee_spec_def crc32_bytes_foldl)

lemma crc_check_value: "crc32_update 0 check_bytes = 0xCBF43926"
  unfolding check_bytes_def by code_simp

theorem telemetry_crc_is_ieee_witness:
  "crc32_ieee_spec check_bytes = 0xCBF43926 \<and> telemetry_crc32 False check_bytes = 0"
proof -
  from telemetry_crc_is_ieee [of check_bytes]
  have "crc32_ieee_spec check_bytes = crc32_update 0 check_bytes"
    and "telemetry_crc32 False check_bytes = 0"
    by (elim conjE, simp)+
  then show ?thesis by (simp add: crc_check_value)
qed

section \<open>Properties of the servo task\<close>

lemma servoClose_fields:
  "s_min_us (servoClose s) = s_min_us s \<and> s_max_us (servoClose s) = s_max_us s
   \<and> \<not> s_open (servoClose s)
   \<and> (s_min_us s \<le> s_max_us s \<longrightarrow>
        s_cmd_us (servoClose s) = s_min_us s \<and> ledc_duty (servoClose s) = us_to_duty (s_min_us s))"
  by (auto simp add: servoClose_def servoWriteUS_def Let_def)

lemma servoOpen_fields:
  "s_min_us (servoOpen s) = s_min_us s \<and> s_max_us (servoOpen s) = s_max_us s"
  by (simp add: servoOpen_def servoWriteUS_def Let_def)

lemma servo_tick_range:
  "s_min_us (servo (servo_tick t rec)) = s_min_us (servo t)
   \<and> s_max_us (servo (servo_tick t rec)) = s_max_us (servo t)"
  by (simp add: servo_tick_def Let_def servoClose_fields servoOpen_fields)

lemma servo_tick_stall:
  "hdr_timestamp_ms rec = 0 \<or> hdr_timestamp_ms rec = last_stamp t \<Longrightarrow>
   servo_tick t rec = t\<lparr>servo := servoClose (servo t)\<rparr>"
  by (auto simp add: servo_tick_def)

lemma servo_tick_last:
  "last_stamp (servo_tick t rec) = hdr_timestamp_ms rec \<or> hdr_timestamp_ms rec = 0"
  by (simp add: servo_tick_def Let_def)

lemma servo_run_snoc: "servo_run t (rs @ [r]) = servo_tick (servo_run t rs) r"
  by (induction rs arbitrary: t) simp_all

lemma servo_run_range:
  "s_min_us (servo (servo_run t rs)) = s_min_us (servo t)
   \<and> s_max_us (servo (servo_run t rs)) = s_max_us (servo t)"
  by (induction rs arbitrary: t) (simp_all add: servo_tick_range)

lemma us_to_duty_unat:
  "unat (us_to_duty us) = min 65535 (unat us * 65535 div 20000)"
proof -
  let ?d = "unat us * 65535 div 20000"
  have b: "(if 65535 < ?d then 65535 else ?d) < 2 ^ 32"
    by simp
  have "unat (of_nat (if 65535 < ?d then 65535 else ?d) :: u32) = (if 65535 < ?d then 65535 else ?d)"
    using b by (simp add: unat_of_nat)
  then show ?thesis
    by (simp add: us_to_duty_def SERVO_PWM_FREQ_HZ_def SERVO_PWM_RES_BITS_def Let_def min_def)
qed

text \<open>
  Claim C10.  With the endpoints in order, an iteration whose record has timestamp
  zero or the last accepted timestamp does nothing but \<^verbatim>\<open>servoClose\<close>: the
  result does not depend on any other field of the record, the commanded pulse is
  the minimum, the duty handed to \<^verbatim>\<open>ledcWrite\<close> is that of the minimum pulse,
  and the servo is marked closed.  The same holds for an iteration whose record has
  the timestamp seen on the previous iteration, and for an iteration with timestamp
  zero after any run.  The duty of a pulse of \<open>us\<close> microseconds is
  \<open>us * 65535 div 20000\<close>, capped at 65535.
\<close>

theorem servo_watchdog_closes:
  assumes "s_min_us (servo t) \<le> s_max_us (servo t)"
  shows "(hdr_timestamp_ms rec = 0 \<or> hdr_timestamp_ms rec = last_stamp t \<longrightarrow>
            servo_tick t rec = t\<lparr>servo := servoClose (servo t)\<rparr>
            \<and> s_cmd_us (servo (servo_tick t rec)) = s_min_us (servo t)
            \<and> ledc_duty (servo (servo_tick t rec)) = us_to_duty (s_min_us (servo t))
            \<and> \<not> s_open (servo (servo_tick t rec)))
       \<and> (hdr_timestamp_ms rec2 = hdr_timestamp_ms rec \<longrightarrow>
            s_cmd_us (servo (servo_tick (servo_tick t rec) rec2)) = s_min_us (servo t)
            \<and> ledc_duty (servo (servo_tick (servo_tick t rec) rec2)) = us_to_duty (s_min_us (servo t))
            \<and> \<not> s_open (servo (servo_tick (servo_tick t rec) rec2)))
       \<and> (hdr_timestamp_ms rec = 0 \<longrightarrow>
            s_cmd_us (servo (servo_tick (servo_run t rs) rec)) = s_min_us (servo t)
            \<and> ledc_duty (servo (servo_tick (servo_run t rs) rec)) = us_to_duty (s_min_us (servo t))
            \<and> \<not> s_open (servo (servo_tick (servo_run t rs) rec)))
       \<and> unat (us_to_duty us) = min 65535 (unat us * 65535 div 20000)"
proof (intro conjI impI)
  assume st: "hdr_timestamp_ms rec = 0 \<or> hdr_timestamp_ms rec = last_stamp t"
  show e: "servo_tick t rec = t\<lparr>servo := servoClose (servo t)\<rparr>"
    by (rule servo_tick_stall [OF st])
  show "s_cmd_us (servo (servo_tick t rec)) = s_min_us (servo t)"
    and "ledc_duty (servo (servo_tick t rec)) = us_to_duty (s_min_us (servo t))"
    and "\<not> s_open (servo (servo_tick t rec))"
    using assms servoClose_fields [of "servo t"] by (simp_all add: e)
next
  assume same: "hdr_timestamp_ms rec2 = hdr_timestamp_ms rec"
  let ?t1 = "servo_tick t rec"
  have st: "hdr_timestamp_ms rec2 = 0 \<or> hdr_timestamp_ms rec2 = last_stamp ?t1"
    using servo_tick_last [of t rec] same by auto
  have r: "s_min_us (servo ?t1) \<le> s_max_us (servo ?t1)" "s_min_us (servo ?t1) = s_min_us (servo t)"
    using assms by (simp_all add: servo_tick_range)
  show "s_cmd_us (servo (servo_tick ?t1 rec2)) = s_min_us (servo t)"
    and "ledc_duty (servo (servo_tick ?t1 rec2)) = us_to_duty (s_min_us (servo t))"
    and "\<not> s_open (servo (servo_tick ?t1 rec2))"
    using r servoClose_fields [of "servo ?t1"] by (simp_all add: servo_tick_stall [OF st])
next
  assume z: "hdr_timestamp_ms rec = 0"
  let ?t1 = "servo_run t rs"
  have r: "s_min_us (servo ?t1) \<le> s_max_us (servo ?t1)" "s_min_us (servo ?t1) = s_min_us (servo t)"
    using assms by (simp_all add: servo_run_range)
  show "s_cmd_us (servo (servo_tick ?t1 rec)) = s_min_us (servo t)"
    and "ledc_duty (servo (servo_tick ?t1 rec)) = us_to_duty (s_min_us (servo t))"
    and "\<not> s_open (servo (servo_tick ?t1 rec))"
    using r z servoClose_fields [of "servo ?t1"] by (simp_all add: servo_tick_stall)
next
  show "unat (us_to_duty us) = min 65535 (unat us * 65535 div 20000)"
    by (rule us_to_duty_unat)
qed

lemmas servo_eval = servo_task_boot_def servo_tick_def should_open_def servoOpen_def servoClose_def
  servoWriteUS_def us_to_duty_def SERVO_MIN_US_def SERVO_MAX_US_def SERVO_PWM_FREQ_HZ_def
  SERVO_PWM_RES_BITS_def rec_window_def Let_def

lemma servo_opened:
  "servo_tick servo_task_boot rec_window =
     \<lparr>servo = \<lparr>s_min_us = 1000, s_max_us = 1400, s_cmd_us = 1400, s_open = True,
               ledc_duty = 4587\<rparr>, last_stamp = 3520\<rparr>"
  by (simp add: servo_eval)

theorem servo_watchdog_closes_witness:
  "s_open (servo (servo_tick servo_task_boot rec_window))
   \<and> s_cmd_us (servo (servo_tick servo_task_boot rec_window)) = 1400
   \<and> ledc_duty (servo (servo_tick servo_task_boot rec_window)) = 4587
   \<and> hdr_timestamp_ms rec_window = last_stamp (servo_tick servo_task_boot rec_window)
   \<and> \<not> s_open (servo (servo_tick (servo_tick servo_task_boot rec_window) rec_window))
   \<and> s_cmd_us (servo (servo_tick (servo_tick servo_task_boot rec_window) rec_window)) = 1000
   \<and> ledc_duty (servo (servo_tick (servo_tick servo_task_boot rec_window) rec_window)) = 3276
   \<and> \<not> s_open (servo (servo_tick (servo_tick servo_task_boot rec_window)
                          (rec_window\<lparr>hdr_timestamp_ms := 0\<rparr>)))
   \<and> ledc_duty (servo (servo_tick (servo_tick servo_task_boot rec_window)
                          (rec_window\<lparr>hdr_timestamp_ms := 0\<rparr>))) = 3276"
proof -
  let ?t = "servo_tick servo_task_boot rec_window"
  have r: "s_min_us (servo ?t) \<le> s_max_us (servo ?t)" "s_min_us (servo ?t) = 1000"
    by (simp_all add: servo_opened)
  have o: "s_open (servo ?t)" "s_cmd_us (servo ?t) = 1400" "ledc_duty (servo ?t) = 4587"
    "hdr_timestamp_ms rec_window = last_stamp ?t"
    by (simp_all add: servo_opened) (simp add: rec_window_def)
  have z: "hdr_timestamp_ms (rec_window\<lparr>hdr_timestamp_ms := 0\<rparr>) = 0"
    by simp
  from servo_watchdog_closes [OF r(1), of rec_window rec_window "[]" 1000] o(4)
  have a0: "s_cmd_us (servo (servo_tick ?t rec_window)) = s_min_us (servo ?t)
            \<and> ledc_duty (servo (servo_tick ?t rec_window)) = us_to_duty (s_min_us (servo ?t))
            \<and> \<not> s_open (servo (servo_tick ?t rec_window))"
    and u0: "unat (us_to_duty 1000) = min 65535 (unat (1000::u16) * 65535 div 20000)"
    by blast+
  from u0 have "unat (us_to_duty 1000) = 3276"
    by simp
  then have "(word_of_nat (unat (us_to_duty 1000)) :: u32) = word_of_nat 3276"
    by (rule arg_cong)
  then have u: "us_to_duty 1000 = 3276"
    by simp
  from a0 have a: "s_cmd_us (servo (servo_tick ?t rec_window)) = 1000"
          "ledc_duty (servo (servo_tick ?t rec_window)) = 3276"
          "\<not> s_open (servo (servo_tick ?t rec_window))"
    by (simp_all add: r(2) u)
  from servo_watchdog_closes [OF r(1), of "rec_window\<lparr>hdr_timestamp_ms := 0\<rparr>" rec_window "[]" 1000] z
  have b0: "ledc_duty (servo (servo_tick ?t (rec_window\<lparr>hdr_timestamp_ms := 0\<rparr>)))
              = us_to_duty (s_min_us (servo ?t))
            \<and> \<not> s_open (servo (servo_tick ?t (rec_window\<lparr>hdr_timestamp_ms := 0\<rparr>)))"
    by blast
  then have b: "ledc_duty (servo (servo_tick ?t (rec_window\<lparr>hdr_timestamp_ms := 0\<rparr>))) = 3276"
      "\<not> s_open (servo (servo_tick ?t (rec_window\<lparr>hdr_timestamp_ms := 0\<rparr>)))"
    by (simp_all add: r(2) u)
  from o a b show ?thesis by simp
qed

end
